theory Spec2Isabelle
  imports Complex_Main "HOL-Library.Log_Nat"
begin

section \<open>Access gate\<close>

text \<open>
  The context value that \<open>useUser\<close> hands to its consumers
  (\<open>UserContextType\<close>): the Supabase user, the role names, the permission set and
  the loading flag. \<open>null\<close> is \<open>None\<close>. Of the Supabase \<open>User\<close> object the
  model keeps the identifier and the e-mail address.
\<close>

record auth_user =
  user_id :: string
  user_email :: string

record user_context =
  user :: "auth_user option"
  roles :: "string list option"
  permissions :: "string set option"
  loading :: bool

text \<open>
  \<open>const isAuthorized = permissions?.has(resourcePath) ?? false\<close> in
  \<open>ProtectedRoute\<close>.
\<close>

definition isAuthorized :: "string \<Rightarrow> string set option \<Rightarrow> bool" where
  "isAuthorized resourcePath perms =
     (case perms of None \<Rightarrow> False | Some ps \<Rightarrow> resourcePath \<in> ps)"




section \<open>Role/permission resolver and session store\<close>

subsection \<open>The data collaborator\<close>

text \<open>
  A row of \<open>user_roles\<close> selected with \<open>roles(id, role_name)\<close> carries the joined
  role object (\<open>SupabaseFetchedRolesData\<close>); the source reads it with \<open>roles?.\<close>, so
  the object may be missing (\<open>None\<close>).
\<close>

record role_obj =
  role_id :: int
  role_name :: string

record PostgrestError =
  error_code :: string
  error_message :: string

text \<open>The \<open>{ data, error }\<close> pair every Supabase query resolves to.\<close>

record 'a query_result =
  data :: "'a option"
  error :: "PostgrestError option"

text \<open>
  The three calls the resolver awaits, in the order it makes them:
  \<open>supabase.auth.getUser()\<close>, the \<open>user_roles\<close> query for a user identifier, and the
  \<open>resource_permissions\<close> query for a list of role identifiers (its rows are
  \<open>{resource_path}\<close>, modelled by the path). Of the answer of \<open>getUser\<close> the resolver
  reads \<open>data.user\<close> alone, which is the user or \<open>null\<close>.
\<close>

datatype request =
    GetUser
  | SelectUserRoles string
  | SelectResourcePermissions "int list"

record backend =
  getUser :: "auth_user option"
  select_user_roles :: "string \<Rightarrow> role_obj option list query_result"
  select_resource_permissions :: "int list \<Rightarrow> string list query_result"

subsection \<open>State of \<open>UserProvider\<close>\<close>

text \<open>
  The four \<open>useState\<close> cells are the fields of \<open>user_context\<close>. Around them the model
  keeps what the theorems below speak of: the resolutions that are suspended at an \<open>await\<close>
  (each by the call it waits for), every call made to the collaborators (oldest first),
  the arguments of \<open>console.error\<close>, and the session last announced by the
  authentication collaborator.
\<close>

record provider_state = user_context +
  in_flight :: "request list"
  requests :: "request list"
  console_error :: "PostgrestError list"
  auth_session :: "auth_user option"

definition issue :: "request \<Rightarrow> provider_state \<Rightarrow> provider_state" where
  "issue r s = s\<lparr>requests := requests s @ [r]\<rparr>"

subsection \<open>\<open>fetchUserAndRolesAndPermissions\<close>\<close>

text \<open>
  \<open>userRolesData.map(item => item.roles?.role_name).filter(Boolean)\<close> and the same
  with \<open>roles?.id\<close>: \<open>Boolean\<close> drops \<open>undefined\<close>, the empty string and the
  number zero.
\<close>

definition fetchedRoles_of :: "role_obj option list \<Rightarrow> string list" where
  "fetchedRoles_of userRolesData =
     List.map_filter
       (\<lambda>item. case item of
                  None \<Rightarrow> None
                | Some r \<Rightarrow> if role_name r = [] then None else Some (role_name r))
       userRolesData"

definition roleIds_of :: "role_obj option list \<Rightarrow> int list" where
  "roleIds_of userRolesData =
     List.map_filter
       (\<lambda>item. case item of
                  None \<Rightarrow> None
                | Some r \<Rightarrow> if role_id r = 0 then None else Some (role_id r))
       userRolesData"

text \<open>The \<open>catch\<close> and \<open>finally\<close> blocks of the function.\<close>

definition catch_block :: "PostgrestError \<Rightarrow> provider_state \<Rightarrow> provider_state" where
  "catch_block e s =
     s\<lparr>roles := None, permissions := None, console_error := console_error s @ [e]\<rparr>"

definition finally_block :: "provider_state \<Rightarrow> provider_state" where
  "finally_block s = s\<lparr>loading := False\<rparr>"

text \<open>
  The function body is cut at its three \<open>await\<close>s. Each piece takes the awaited
  result and the state, runs to the next \<open>await\<close> or to the end of the function, and
  returns the state with the argument of the next query, if there is one. Of the
  console only \<open>console.error\<close> is kept.

  First piece, after \<open>await supabase.auth.getUser()\<close>.
\<close>

definition after_getUser ::
  "auth_user option \<Rightarrow> provider_state \<Rightarrow> provider_state \<times> string option" where
  "after_getUser authUser s =
     (let s1 = s\<lparr>user := authUser\<rparr> in
      case authUser of
        Some u \<Rightarrow> (s1, Some (user_id u))
      | None \<Rightarrow> (finally_block (s1\<lparr>roles := None, permissions := None\<rparr>), None))"

text \<open>Second piece, after the \<open>user_roles\<close> query.\<close>

definition after_user_roles ::
  "role_obj option list query_result \<Rightarrow> provider_state \<Rightarrow> provider_state \<times> int list option" where
  "after_user_roles res s =
     (case error res of
        Some userRolesError \<Rightarrow>
          (finally_block
             (catch_block userRolesError
                (s\<lparr>console_error := console_error s @ [userRolesError]\<rparr>)), None)
      | None \<Rightarrow>
          (let userRolesData = (case data res of Some rows \<Rightarrow> rows | None \<Rightarrow> []);
               fetchedRoles = fetchedRoles_of userRolesData;
               s1 = s\<lparr>roles := Some fetchedRoles\<rparr>
           in if length fetchedRoles > 0 then
                (let roleIds = roleIds_of userRolesData in
                 if length roleIds = 0
                 then (finally_block (s1\<lparr>permissions := Some {}, loading := False\<rparr>), None)
                 else (s1, Some roleIds))
              else (finally_block (s1\<lparr>permissions := Some {}\<rparr>), None)))"

text \<open>Third piece, after the \<open>resource_permissions\<close> query.\<close>

definition after_resource_permissions ::
  "string list query_result \<Rightarrow> provider_state \<Rightarrow> provider_state" where
  "after_resource_permissions res s =
     (case error res of
        Some permissionsError \<Rightarrow>
          finally_block
            (catch_block permissionsError
               (s\<lparr>console_error := console_error s @ [permissionsError]\<rparr>))
      | None \<Rightarrow>
          (let fetchedPermissions = set (case data res of Some ps \<Rightarrow> ps | None \<Rightarrow> []);
               fetchedPermissions' =
                 (if fetchedPermissions \<noteq> {} then insert ''/'' fetchedPermissions
                  else fetchedPermissions)
           in finally_block (s\<lparr>permissions := Some fetchedPermissions'\<rparr>)))"

text \<open>
  One call of the function that nothing interleaves with: every \<open>await\<close> is answered
  by the backend before anything else happens. The returned promise always resolves
  (the \<open>catch\<close> block does not rethrow), so the result is the state alone.
\<close>

definition fetchUserAndRolesAndPermissions :: "backend \<Rightarrow> provider_state \<Rightarrow> provider_state" where
  "fetchUserAndRolesAndPermissions be s =
     (case after_getUser (getUser be) (issue GetUser (s\<lparr>loading := True\<rparr>)) of
        (s1, None) \<Rightarrow> s1
      | (s1, Some uid) \<Rightarrow>
          (case after_user_roles (select_user_roles be uid) (issue (SelectUserRoles uid) s1) of
             (s2, None) \<Rightarrow> s2
           | (s2, Some roleIds) \<Rightarrow>
               after_resource_permissions (select_resource_permissions be roleIds)
                 (issue (SelectResourcePermissions roleIds) s2)))"

subsection \<open>The effect of \<open>UserProvider\<close>: mount, auth events, suspended resolutions\<close>

text \<open>The \<open>AuthChangeEvent\<close> values of the authentication collaborator.\<close>

datatype auth_event =
    INITIAL_SESSION | SIGNED_IN | SIGNED_OUT | TOKEN_REFRESHED | USER_UPDATED
  | PASSWORD_RECOVERY | MFA_CHALLENGE_VERIFIED

text \<open>
  Calling \<open>fetchUserAndRolesAndPermissions()\<close> without awaiting it, as the effect and the
  listener do: the function runs to its first \<open>await\<close> and stays suspended there.
\<close>

definition fetch_begin :: "provider_state \<Rightarrow> provider_state" where
  "fetch_begin s = issue GetUser (s\<lparr>loading := True, in_flight := in_flight s @ [GetUser]\<rparr>)"

text \<open>
  The listener passed to \<open>supabase.auth.onAuthStateChange\<close>; its second argument is
  \<open>session?.user\<close>. The effect is re-run whenever \<open>user?.id\<close> changes, so the
  \<open>user\<close> the listener closes over has the identifier of the current state.
\<close>

definition onAuthStateChange ::
  "auth_event \<Rightarrow> auth_user option \<Rightarrow> provider_state \<Rightarrow> provider_state" where
  "onAuthStateChange ev session_user s =
     (case session_user of
        Some su \<Rightarrow>
          if ev = SIGNED_IN \<and> map_option user_id (user s) = Some (user_id su)
          then s\<lparr>user := Some su, loading := False\<rparr>
          else fetch_begin (s\<lparr>user := Some su\<rparr>)
      | None \<Rightarrow> s\<lparr>user := None, roles := None, permissions := None, loading := False\<rparr>)"

text \<open>
  The dependency list of the effect is \<open>[fetchUserAndRolesAndPermissions, user?.id]\<close>
  and the callback is memoised with no dependencies: after a state change that alters
  \<open>user?.id\<close> the effect body runs again and calls the resolver once more.
\<close>

definition useEffect_rerun :: "provider_state \<Rightarrow> provider_state \<Rightarrow> provider_state" where
  "useEffect_rerun rendered_last s =
     (if map_option user_id (user rendered_last) \<noteq> map_option user_id (user s)
      then fetch_begin s else s)"

text \<open>
  A suspended resolution receives the result it waits for and runs to its next
  \<open>await\<close>, where it stays in the list, or to its end, where it leaves it.
\<close>

fun continue_with :: "backend \<Rightarrow> request \<Rightarrow> provider_state \<Rightarrow> provider_state \<times> request option" where
  "continue_with be GetUser s =
     (case after_getUser (getUser be) s of
        (s', k) \<Rightarrow> (s', map_option SelectUserRoles k))"
| "continue_with be (SelectUserRoles uid) s =
     (case after_user_roles (select_user_roles be uid) s of
        (s', k) \<Rightarrow> (s', map_option SelectResourcePermissions k))"
| "continue_with be (SelectResourcePermissions roleIds) s =
     (after_resource_permissions (select_resource_permissions be roleIds) s, None)"

definition resolve_at :: "backend \<Rightarrow> nat \<Rightarrow> provider_state \<Rightarrow> provider_state" where
  "resolve_at be i s =
     (case continue_with be (in_flight s ! i) s of
        (s', None) \<Rightarrow> s'\<lparr>in_flight := take i (in_flight s') @ drop (Suc i) (in_flight s')\<rparr>
      | (s', Some r) \<Rightarrow> issue r (s'\<lparr>in_flight := (in_flight s')[i := r]\<rparr>))"

text \<open>
  What can happen to the mounted provider: the authentication collaborator pushes an
  event, or the call awaited by the \<open>i\<close>-th suspended resolution resolves.
  \<open>getUser\<close> answers with the session the collaborator announced last; the two queries
  answer from the backend.
\<close>

datatype event = AuthStateChange auth_event "auth_user option" | Resolves nat

fun step :: "backend \<Rightarrow> event \<Rightarrow> provider_state \<Rightarrow> provider_state" where
  "step be (AuthStateChange ev session_user) s =
     useEffect_rerun s (onAuthStateChange ev session_user (s\<lparr>auth_session := session_user\<rparr>))"
| "step be (Resolves i) s =
     (if i < length (in_flight s)
      then useEffect_rerun s (resolve_at (be\<lparr>getUser := auth_session s\<rparr>) i s)
      else s)"

definition run :: "backend \<Rightarrow> event list \<Rightarrow> provider_state \<Rightarrow> provider_state" where
  "run be evs s = foldl (\<lambda>s' e. step be e s') s evs"

text \<open>The provider after its first render and the first run of the effect.\<close>

definition mount :: "auth_user option \<Rightarrow> provider_state" where
  "mount session_user =
     fetch_begin
       \<lparr>user = None, roles = None, permissions = None, loading = True,
        in_flight = [], requests = [], console_error = [], auth_session = session_user\<rparr>"

subsection \<open>A backend given by its tables\<close>

text \<open>
  The rows of \<open>resource_permissions\<close> and what the query
  \<open>.select('resource_path').in('role_id', roleIds).eq('can_access', true)\<close> returns
  from them; the membership rows of \<open>user_roles\<close>, each with its joined role.
\<close>

record resource_permission =
  perm_role_id :: int
  resource_path :: string
  can_access :: bool

definition permissions_query :: "resource_permission list \<Rightarrow> int list \<Rightarrow> string list query_result" where
  "permissions_query tbl roleIds =
     \<lparr>data = Some (map resource_path
                     (filter (\<lambda>row. perm_role_id row \<in> set roleIds \<and> can_access row) tbl)),
      error = None\<rparr>"

definition user_roles_query :: "(string \<times> role_obj option) list \<Rightarrow> string \<Rightarrow> role_obj option list query_result" where
  "user_roles_query tbl uid =
     \<lparr>data = Some (map snd (filter (\<lambda>row. fst row = uid) tbl)), error = None\<rparr>"

definition table_backend ::
  "auth_user option \<Rightarrow> (string \<times> role_obj option) list \<Rightarrow> resource_permission list \<Rightarrow> backend" where
  "table_backend authUser user_roles resource_permissions =
     \<lparr>getUser = authUser,
      select_user_roles = user_roles_query user_roles,
      select_resource_permissions = permissions_query resource_permissions\<rparr>"


section \<open>Numbers\<close>

text \<open>
  A JavaScript number is an IEEE 754 binary64 value. The model takes a finite one as the
  rational it denotes (the two zeros are one value; infinities and NaN are outside the
  model), and rounds the exact result of each operation to the nearest binary64 value,
  ties to the even significand, as the operations of the language do.

  \<open>binade q\<close> is the exponent of the power of two at or below \<open>\<bar>q\<bar>\<close>. A binary64
  value has a significand of 53 bits, and no exponent below \<open>-1074\<close> for its last bit.
\<close>

type_synonym number = rat

definition round_ties_even :: "rat \<Rightarrow> int" where
  "round_ties_even q =
     (let n = \<lfloor>q\<rfloor>; r = q - of_int n
      in if r < 1/2 then n else if 1/2 < r then n + 1 else if even n then n else n + 1)"

definition binade :: "rat \<Rightarrow> int" where
  "binade q =
     (case quotient_of \<bar>q\<bar> of
        (a, b) \<Rightarrow> (let k = bitlen a - bitlen b in if 2 powi k \<le> \<bar>q\<bar> then k else k - 1))"

definition double_of :: "rat \<Rightarrow> number" where
  "double_of q =
     (if q = 0 then 0
      else (let e = max (binade q - 52) (- 1074)
            in of_int (round_ties_even (q / 2 powi e)) * 2 powi e))"

text \<open>
  \<open>a / b\<close> and \<open>a + b\<close> of the language, for a divisor that is not zero and results in
  the range of binary64.
\<close>

definition js_divide :: "number \<Rightarrow> number \<Rightarrow> number" where
  "js_divide a b = double_of (a / b)"

definition js_add :: "number \<Rightarrow> number \<Rightarrow> number" where
  "js_add a b = double_of (a + b)"

text \<open>
  \<open>x.toFixed(2)\<close> writes the decimal \<open>n / 100\<close> for the integer \<open>n\<close> that brings
  \<open>n / 100\<close> closest to the magnitude of \<open>x\<close>, the larger \<open>n\<close> of two equally close
  ones, and puts the sign of \<open>x\<close> before it; from \<open>10\<^sup>2\<^sup>1\<close> on it writes \<open>x\<close> as
  \<open>String(x)\<close> does. \<open>toFixed_2\<close> is the number the string denotes, and \<open>parseFloat\<close>
  reads a decimal as the nearest binary64 value.
\<close>

definition toFixed_2 :: "number \<Rightarrow> rat" where
  "toFixed_2 x =
     (if 10 ^ 21 \<le> \<bar>x\<bar> then x
      else sgn x * of_int \<lfloor>\<bar>x\<bar> * 100 + 1/2\<rfloor> / 100)"

definition parseFloat :: "rat \<Rightarrow> number" where
  "parseFloat decimal = double_of decimal"

text \<open>
  \<open>calculateBaseValue\<close> of the invoice form. The schema of the form admits tax
  percentages from zero on; for these the divisor \<open>1 + igvRate\<close> is at least one and
  every intermediate result is finite.
\<close>

definition calculateBaseValue :: "number \<Rightarrow> number \<Rightarrow> number" where
  "calculateBaseValue totalPrice igvPercentage =
     (if igvPercentage = 0 then totalPrice
      else (let igvRate = js_divide igvPercentage 100;
                baseValue = js_divide totalPrice (js_add 1 igvRate)
            in parseFloat (toFixed_2 baseValue)))"


section \<open>Invoice form: data and validation\<close>

text \<open>
  A string of the program is a sequence of UTF-16 code units. The strings met here stay
  below \<open>U+0100\<close>, so a code unit is a \<open>char\<close> and \<open>length\<close> is the
  \<open>.length\<close> of the language. The accented letters of the messages are written by
  their code unit.
\<close>

abbreviation a_acute :: char where "a_acute \<equiv> CHR 0xE1"
abbreviation i_acute :: char where "i_acute \<equiv> CHR 0xED"
abbreviation o_acute :: char where "o_acute \<equiv> CHR 0xF3"
abbreviation u_acute :: char where "u_acute \<equiv> CHR 0xFA"
abbreviation E_acute :: char where "E_acute \<equiv> CHR 0xC9"

text \<open>\<open>Client\<close>, a line item, the values of the form and the payload sent to the API.\<close>

record Client =
  client_id :: "number option"
  tipo_documento :: string
  numero_documento :: string
  razon_social :: string
  nombre_comercial :: string
  direccion :: string
  ubigeo :: string
  distrito :: string
  provincia :: string
  departamento :: string
  telefono :: string
  email :: string

record Detalle =
  codigo :: string
  descripcion :: string
  unidad :: string
  cantidad :: number
  mto_valor_unitario :: number
  porcentaje_igv :: number
  tip_afe_igv :: string
  codigo_producto_sunat :: string

record BoletaFormValues =
  serie :: string
  fecha_emision :: string
  moneda :: string
  tipo_operacion :: string
  metodo_envio :: string
  forma_pago_tipo :: string
  usuario_creacion :: string
  client :: Client
  detalles :: "Detalle list"

record BoletaPayload = BoletaFormValues +
  company_id :: number
  branch_id :: number

definition COMPANY_ID :: number where "COMPANY_ID = 1"
definition BRANCH_ID :: number where "BRANCH_ID = 1"

text \<open>
  A validation issue is the path of the field and the message. The form keeps numbers in
  its numeric fields (their \<open>onChange\<close> handlers store \<open>parseFloat(value) || 0\<close>), so
  \<open>z.coerce.number()\<close> leaves them as they are.
\<close>

datatype path_segment = Key string | Index nat

type_synonym issue = "path_segment list \<times> string"

definition string_min :: "nat \<Rightarrow> string \<Rightarrow> string \<Rightarrow> path_segment list \<Rightarrow> issue list" where
  "string_min n msg s path = (if length s < n then [(path, msg)] else [])"

definition number_min :: "number \<Rightarrow> string \<Rightarrow> number \<Rightarrow> path_segment list \<Rightarrow> issue list" where
  "number_min bound msg x path = (if x < bound then [(path, msg)] else [])"

text \<open>
  \<open>ClientSchema\<close>. The fields declared \<open>z.string().optional()\<close> accept every string.
  The e-mail pattern of the validation library is a parameter; the field accepts what
  matches it and the empty string.
\<close>

definition ClientSchema :: "(string \<Rightarrow> bool) \<Rightarrow> Client \<Rightarrow> path_segment list \<Rightarrow> issue list" where
  "ClientSchema is_email c path =
     string_min 1 ''Tipo de documento es requerido.'' (tipo_documento c)
       (path @ [Key ''tipo_documento'']) @
     string_min 8 (''N'' @ [u_acute] @ ''mero de documento debe tener al menos 8 caracteres.'')
       (numero_documento c) (path @ [Key ''numero_documento'']) @
     string_min 3 (''Raz'' @ [o_acute] @ ''n social es requerida.'') (razon_social c)
       (path @ [Key ''razon_social'']) @
     string_min 5 (''Direcci'' @ [o_acute] @ ''n es requerida.'') (direccion c)
       (path @ [Key ''direccion'']) @
     (if is_email (email c) \<or> email c = [] then []
      else [(path @ [Key ''email''], ''Email inv'' @ [a_acute] @ ''lido.'')])"

text \<open>\<open>DetalleSchema\<close>; the bound of \<open>cantidad\<close> is the number \<open>0.01\<close>.\<close>

definition DetalleSchema :: "Detalle \<Rightarrow> path_segment list \<Rightarrow> issue list" where
  "DetalleSchema d path =
     string_min 1 (''Descripci'' @ [o_acute] @ ''n es requerida.'') (descripcion d)
       (path @ [Key ''descripcion'']) @
     string_min 1 ''Unidad es requerida.'' (unidad d) (path @ [Key ''unidad'']) @
     number_min (double_of (1 / 100)) ''Cantidad debe ser mayor a 0.'' (cantidad d)
       (path @ [Key ''cantidad'']) @
     number_min 0 ''Precio debe ser 0 o mayor.'' (mto_valor_unitario d)
       (path @ [Key ''mto_valor_unitario'']) @
     number_min 0 ''Number must be greater than or equal to 0'' (porcentaje_igv d)
       (path @ [Key ''porcentaje_igv'']) @
     string_min 1 (''Tipo de afectaci'' @ [o_acute] @ ''n IGV es requerido.'') (tip_afe_igv d)
       (path @ [Key ''tip_afe_igv''])"

text \<open>
  \<open>BoletaPayloadSchema.omit({ company_id: true, branch_id: true })\<close>, the schema the
  form validates with. Its plain \<open>z.string()\<close> fields accept every string.
\<close>

definition BoletaPayloadSchema :: "(string \<Rightarrow> bool) \<Rightarrow> 'a BoletaFormValues_scheme \<Rightarrow> issue list" where
  "BoletaPayloadSchema is_email vals =
     ClientSchema is_email (client vals) [Key ''client''] @
     concat (map (\<lambda>(i, d). DetalleSchema d [Key ''detalles'', Index i])
               (enumerate 0 (detalles vals))) @
     (if length (detalles vals) < 1
      then [([Key ''detalles''], ''Debe haber al menos un detalle.'')] else [])"


section \<open>Client lookup\<close>

text \<open>
  What can be thrown: an \<open>Error\<close> object with its message, or a value that is not an
  \<open>Error\<close>. An awaited promise is fulfilled with a value or rejects with what was thrown.
\<close>

datatype thrown = JsError string | NotAnError

datatype 'a awaited = Fulfilled 'a | Rejected thrown

text \<open>The columns of \<open>socio_titulares\<close> the lookup selects, nullable ones as options.\<close>

record socio_titular =
  socio_id :: number
  dni :: string
  nombres :: string
  apellidoPaterno :: string
  apellidoMaterno :: string
  direccionDNI :: string
  direccionVivienda :: "string option"
  distritoDNI :: string
  distritoVivienda :: "string option"
  provinciaDNI :: string
  provinciaVivienda :: "string option"
  regionDNI :: string
  regionVivienda :: "string option"
  celular :: "string option"

text \<open>
  \<open>String.prototype.trim\<close> on code units below \<open>U+0100\<close>: tab, line feed, vertical tab,
  form feed, carriage return, space and no-break space are white space.
\<close>

definition is_white_space :: "char \<Rightarrow> bool" where
  "is_white_space c \<longleftrightarrow> c \<in> {CHR 0x09, CHR 0x0A, CHR 0x0B, CHR 0x0C, CHR 0x0D, CHR 0x20, CHR 0xA0}"

definition trim :: "string \<Rightarrow> string" where
  "trim s = rev (dropWhile is_white_space (rev (dropWhile is_white_space s)))"

text \<open>\<open>a || b || ''\<close> for a string \<open>a\<close> and a nullable string \<open>b\<close>, and \<open>b || ''\<close>.\<close>

definition or_empty :: "string option \<Rightarrow> string" where
  "or_empty b = (case b of None \<Rightarrow> [] | Some s \<Rightarrow> s)"

definition first_nonempty :: "string \<Rightarrow> string option \<Rightarrow> string" where
  "first_nonempty a b = (if a \<noteq> [] then a else or_empty b)"

definition clientData_of :: "socio_titular \<Rightarrow> Client" where
  "clientData_of socioData =
     \<lparr>client_id = Some (socio_id socioData),
      tipo_documento = ''1'',
      numero_documento = dni socioData,
      razon_social =
        trim (nombres socioData @ '' '' @ apellidoPaterno socioData @ '' '' @
              apellidoMaterno socioData),
      nombre_comercial = trim (nombres socioData @ '' '' @ apellidoPaterno socioData),
      direccion = first_nonempty (direccionDNI socioData) (direccionVivienda socioData),
      ubigeo = [],
      distrito = first_nonempty (distritoDNI socioData) (distritoVivienda socioData),
      provincia = first_nonempty (provinciaDNI socioData) (provinciaVivienda socioData),
      departamento = first_nonempty (regionDNI socioData) (regionVivienda socioData),
      telefono = or_empty (celular socioData),
      email = []\<rparr>"

text \<open>
  \<open>fetchClientByDocument\<close>. The first argument is the data collaborator: what awaiting
  the \<open>socio_titulares\<close> query with \<open>.eq('dni', docNumber).single()\<close> gives. The result
  comes with the list of the queries made. The body of the \<open>try\<close> block and the
  \<open>catch\<close> block are separate functions; an error thrown in the first passes through the
  second, which wraps the message once more.
\<close>

definition fetchClient_try :: "socio_titular query_result awaited \<Rightarrow> Client option awaited" where
  "fetchClient_try answer =
     (case answer of
        Rejected x \<Rightarrow> Rejected x
      | Fulfilled res \<Rightarrow>
          (case error res of
             Some e \<Rightarrow>
               if error_code e \<noteq> ''PGRST116''
               then Rejected (JsError (''Error de base de datos: '' @ error_message e))
               else (case data res of
                       None \<Rightarrow> Fulfilled None
                     | Some socioData \<Rightarrow> Fulfilled (Some (clientData_of socioData)))
           | None \<Rightarrow>
               (case data res of
                  None \<Rightarrow> Fulfilled None
                | Some socioData \<Rightarrow> Fulfilled (Some (clientData_of socioData)))))"

definition fetchClient_catch :: "Client option awaited \<Rightarrow> Client option awaited" where
  "fetchClient_catch outcome =
     (case outcome of
        Fulfilled v \<Rightarrow> Fulfilled v
      | Rejected (JsError m) \<Rightarrow> Rejected (JsError (''Error de base de datos: '' @ m))
      | Rejected NotAnError \<Rightarrow>
          Rejected (JsError ''Error al buscar cliente en la base de datos interna.''))"

definition fetchClientByDocument ::
  "(string \<Rightarrow> socio_titular query_result awaited) \<Rightarrow> string \<Rightarrow> Client option awaited \<times> string list" where
  "fetchClientByDocument select_socio docNumber =
     (if docNumber = [] \<or> length docNumber < 8 then (Fulfilled None, [])
      else (fetchClient_catch (fetchClient_try (select_socio docNumber)), [docNumber]))"


section \<open>Invoice issuance\<close>

subsection \<open>Response bodies\<close>

text \<open>
  A JSON value, as a response body parsed by the HTTP client. A member read on an object
  is the last one of that name; on any other value but \<open>null\<close> it is \<open>undefined\<close>
  (\<open>None\<close>). \<open>truthy\<close> is the test of \<open>||\<close>.
\<close>

datatype json =
    JNull
  | JBool bool
  | JNum number
  | JStr string
  | JArr "json list"
  | JObj "(string \<times> json) list"

definition get_member :: "string \<Rightarrow> json \<Rightarrow> json option" where
  "get_member k v = (case v of JObj kvs \<Rightarrow> map_of (rev kvs) k | _ \<Rightarrow> None)"

definition truthy :: "json \<Rightarrow> bool" where
  "truthy v =
     (case v of
        JNull \<Rightarrow> False
      | JBool b \<Rightarrow> b
      | JNum n \<Rightarrow> n \<noteq> 0
      | JStr s \<Rightarrow> s \<noteq> []
      | JArr _ \<Rightarrow> True
      | JObj _ \<Rightarrow> True)"

text \<open>\<open>IssueResponseSchema\<close> and its \<open>parse\<close>; \<open>None\<close> is the \<open>ZodError\<close> it throws.\<close>

record LastIssuedBoleta =
  boleta_id :: number
  numero_completo :: string

record IssueResponse =
  success :: bool
  message :: string
  issue_data :: LastIssuedBoleta

definition IssueResponseSchema_parse :: "json \<Rightarrow> IssueResponse option" where
  "IssueResponseSchema_parse body =
     (case (get_member ''success'' body, get_member ''message'' body, get_member ''data'' body) of
        (Some (JBool s), Some (JStr m), Some (JObj kvs)) \<Rightarrow>
          (case (get_member ''id'' (JObj kvs), get_member ''numero_completo'' (JObj kvs)) of
             (Some (JNum i), Some (JStr n)) \<Rightarrow>
               Some \<lparr>success = s, message = m,
                     issue_data = \<lparr>boleta_id = i, numero_completo = n\<rparr>\<rparr>
           | _ \<Rightarrow> None)
      | _ \<Rightarrow> None)"

subsection \<open>The invoicing API\<close>

text \<open>
  What awaiting a request of the HTTP client gives: a response of successful status with
  its body, an error that carries a response (\<open>axios.isAxiosError(error) && error.response\<close>)
  with the body of that response, or anything else thrown.
\<close>

datatype axios_result =
    AxiosResponse json
  | AxiosErrorWithResponse json
  | AxiosRejects thrown

datatype pdf_format = A4 | TICKET

text \<open>
  The collaborator and the library functions the code calls: the two POST requests,
  \<open>JSON.stringify\<close>, the conversion of a value that is not a string inside a template
  literal, the message of the \<open>ZodError\<close> for a body, and the message of the
  \<open>TypeError\<close> of reading a get_member of \<open>null\<close>.
\<close>

record invoicing_api =
  post_boletas :: "BoletaPayload \<Rightarrow> axios_result"
  post_generate_pdf :: "number \<Rightarrow> pdf_format \<Rightarrow> axios_result"
  JSON_stringify :: "json \<Rightarrow> string"
  ToString :: "json \<Rightarrow> string"
  ZodError_message :: "json \<Rightarrow> string"
  TypeError_message :: string

text \<open>
  \<open>error.response.data.message || JSON.stringify(error.response.data)\<close>, as the text it
  contributes to a template literal. Reading \<open>.message\<close> of a \<open>null\<close> body throws.
\<close>

definition apiMessage_of :: "invoicing_api \<Rightarrow> json \<Rightarrow> thrown + string" where
  "apiMessage_of api body =
     (case body of
        JNull \<Rightarrow> Inl (JsError (TypeError_message api))
      | _ \<Rightarrow>
          (case get_member ''message'' body of
             Some v \<Rightarrow>
               if truthy v then Inr (case v of JStr s \<Rightarrow> s | _ \<Rightarrow> ToString api v)
               else Inr (JSON_stringify api body)
           | None \<Rightarrow> Inr (JSON_stringify api body)))"

text \<open>\<open>issueBoleta\<close>: \<open>Inl\<close> is what it throws.\<close>

definition issueBoleta :: "invoicing_api \<Rightarrow> BoletaPayload \<Rightarrow> thrown + IssueResponse" where
  "issueBoleta api boletaData =
     (case post_boletas api boletaData of
        AxiosResponse body \<Rightarrow>
          (case IssueResponseSchema_parse body of
             Some validatedResponse \<Rightarrow> Inr validatedResponse
           | None \<Rightarrow>
               Inl (JsError (''Error al procesar la respuesta o de red: '' @
                             ZodError_message api body)))
      | AxiosErrorWithResponse body \<Rightarrow>
          (case apiMessage_of api body of
             Inl e \<Rightarrow> Inl e
           | Inr apiMessage \<Rightarrow>
               Inl (JsError (''Error de la API de facturaci'' @ [o_acute] @ ''n: '' @ apiMessage)))
      | AxiosRejects (JsError m) \<Rightarrow>
          Inl (JsError (''Error al procesar la respuesta o de red: '' @ m))
      | AxiosRejects NotAnError \<Rightarrow>
          Inl (JsError ''Error desconocido al emitir la boleta.''))"

text \<open>\<open>generateBoletaPdf\<close>: \<open>None\<close> is a normal return, \<open>Some\<close> what it throws.\<close>

definition generateBoletaPdf :: "invoicing_api \<Rightarrow> number \<Rightarrow> pdf_format \<Rightarrow> thrown option" where
  "generateBoletaPdf api boletaId fmt =
     (case post_generate_pdf api boletaId fmt of
        AxiosResponse body \<Rightarrow> None
      | AxiosErrorWithResponse body \<Rightarrow>
          (case apiMessage_of api body of
             Inl e \<Rightarrow> Some e
           | Inr apiMessage \<Rightarrow>
               Some (JsError (''Error de la API al generar PDF: '' @ apiMessage)))
      | AxiosRejects x \<Rightarrow>
          Some (JsError (''Error desconocido al solicitar la generaci'' @ [o_acute] @ ''n del PDF.'')))"

subsection \<open>\<open>BoletaForm\<close>\<close>

text \<open>
  The state cells of the component, the validation issues the form shows, and what the
  theorems below speak of: the toasts shown and the requests sent to the API, oldest first.
\<close>

datatype toast_variant = Success | Destructive | Warning

record toast =
  title :: string
  description :: string
  variant :: toast_variant

datatype api_call = POST_boletas BoletaPayload | POST_generate_pdf number pdf_format

record BoletaForm_state =
  isSubmitting :: bool
  isClientSearching :: bool
  isGeneratingPdf :: bool
  lastIssuedBoleta :: "LastIssuedBoleta option"
  currentSocioId :: "number option"
  form_errors :: "issue list"
  toasts :: "toast list"
  api_calls :: "api_call list"

definition show_toast :: "toast \<Rightarrow> BoletaForm_state \<Rightarrow> BoletaForm_state" where
  "show_toast t st = st\<lparr>toasts := toasts st @ [t]\<rparr>"

text \<open>\<open>error instanceof Error ? error.message : fallback\<close>.\<close>

definition message_or :: "string \<Rightarrow> thrown \<Rightarrow> string" where
  "message_or fallback x = (case x of JsError m \<Rightarrow> m | NotAnError \<Rightarrow> fallback)"

definition handleGeneratePdf :: "invoicing_api \<Rightarrow> number \<Rightarrow> BoletaForm_state \<Rightarrow> BoletaForm_state" where
  "handleGeneratePdf api boletaId st =
     (let st1 = st\<lparr>isGeneratingPdf := True,
                   api_calls := api_calls st @ [POST_generate_pdf boletaId A4]\<rparr>;
          st2 =
            (case generateBoletaPdf api boletaId A4 of
               None \<Rightarrow>
                 show_toast
                   \<lparr>title = ''Generaci'' @ [o_acute] @ ''n de PDF Solicitada'',
                    description = ''El PDF se est'' @ [a_acute] @ '' generando. Podr'' @
                                  [a_acute] @ '' descargarlo en breve.'',
                    variant = Success\<rparr> st1
             | Some x \<Rightarrow>
                 show_toast
                   \<lparr>title = ''Error de PDF'',
                    description =
                      message_or (''Error al solicitar la generaci'' @ [o_acute] @ ''n del PDF.'') x,
                    variant = Destructive\<rparr> st1)
      in st2\<lparr>isGeneratingPdf := False\<rparr>)"

text \<open>
  \<open>onSubmit\<close>, run to its end: the two requests it may await are answered by the API
  before anything else happens. Nothing it catches is thrown on, so it always returns.
\<close>

definition processedDetails_of :: "Detalle list \<Rightarrow> Detalle list" where
  "processedDetails_of ds =
     map (\<lambda>d. let total_price = mto_valor_unitario d;
                  igv_percent = porcentaje_igv d;
                  base_value = calculateBaseValue total_price igv_percent
              in d\<lparr>cantidad := cantidad d, mto_valor_unitario := base_value,
                    porcentaje_igv := igv_percent\<rparr>) ds"

definition payload_of :: "BoletaFormValues \<Rightarrow> BoletaPayload" where
  "payload_of vals =
     BoletaFormValues.extend (vals\<lparr>detalles := processedDetails_of (detalles vals)\<rparr>)
       (BoletaPayload.fields COMPANY_ID BRANCH_ID)"

definition onSubmit :: "invoicing_api \<Rightarrow> BoletaFormValues \<Rightarrow> BoletaForm_state \<Rightarrow> BoletaForm_state" where
  "onSubmit api vals st =
     (let st1 = st\<lparr>isSubmitting := True, lastIssuedBoleta := None\<rparr>;
          payload = payload_of vals;
          st2 = st1\<lparr>api_calls := api_calls st1 @ [POST_boletas payload]\<rparr>;
          st3 =
            (case issueBoleta api payload of
               Inr result \<Rightarrow>
                 (let boletaId = boleta_id (issue_data result);
                      numeroCompleto = numero_completo (issue_data result);
                      st4 = st2\<lparr>lastIssuedBoleta :=
                                  Some \<lparr>boleta_id = boletaId, numero_completo = numeroCompleto\<rparr>\<rparr>;
                      st5 = handleGeneratePdf api boletaId st4
                  in show_toast
                       \<lparr>title = ''Boleta Emitida con '' @ [E_acute] @ ''xito'',
                        description = ''Documento '' @ numeroCompleto @
                                      '' procesado y enviado a SUNAT.'',
                        variant = Success\<rparr> st5)
             | Inl x \<Rightarrow>
                 show_toast
                   \<lparr>title = ''Error de Emisi'' @ [o_acute] @ ''n'',
                    description =
                      message_or (''Ocurri'' @ [o_acute] @ '' un error inesperado.'') x,
                    variant = Destructive\<rparr> st2)
      in st3\<lparr>isSubmitting := False\<rparr>)"

text \<open>
  \<open>form.handleSubmit(onSubmit)\<close> with the schema as resolver: the form library
  validates the values, shows the issues and stops when there are any, and calls
  \<open>onSubmit\<close> with the values otherwise.
\<close>

definition handleSubmit ::
  "(string \<Rightarrow> bool) \<Rightarrow> invoicing_api \<Rightarrow> BoletaFormValues \<Rightarrow> BoletaForm_state \<Rightarrow> BoletaForm_state" where
  "handleSubmit is_email api vals st =
     (let issues = BoletaPayloadSchema is_email vals
      in if issues \<noteq> [] then st\<lparr>form_errors := issues\<rparr>
         else onSubmit api vals (st\<lparr>form_errors := []\<rparr>))"

text \<open>The \<open>disabled\<close> attribute of the submit button.\<close>

definition submit_disabled :: "(string \<Rightarrow> bool) \<Rightarrow> BoletaFormValues \<Rightarrow> BoletaForm_state \<Rightarrow> bool" where
  "submit_disabled is_email vals st \<longleftrightarrow>
     isSubmitting st \<or> isClientSearching st \<or> BoletaPayloadSchema is_email vals \<noteq> [] \<or>
     lastIssuedBoleta st \<noteq> None"


section \<open>Example data\<close>

text \<open>
  Two actors, a role, two backend errors, and a provider at rest with nobody signed in;
  the closed theorems below are stated on them. The example backend knows actor \<open>A\<close> as
  \<open>admin\<close> (role 1, granted \<open>/settings\<close>) and has no role for anybody else.
\<close>

abbreviation actor_A :: auth_user where
  "actor_A \<equiv> \<lparr>user_id = ''A'', user_email = ''a@example.org''\<rparr>"


abbreviation role_admin :: role_obj where
  "role_admin \<equiv> \<lparr>role_id = 1, role_name = ''admin''\<rparr>"

abbreviation error_timeout :: PostgrestError where
  "error_timeout \<equiv> \<lparr>error_code = ''57014'', error_message = ''timeout''\<rparr>"

abbreviation error_denied :: PostgrestError where
  "error_denied \<equiv> \<lparr>error_code = ''42501'', error_message = ''permission denied''\<rparr>"

abbreviation at_rest :: provider_state where
  "at_rest \<equiv>
     \<lparr>user = None, roles = None, permissions = None, loading = False,
      in_flight = [], requests = [], console_error = [], auth_session = None\<rparr>"

abbreviation example_backend :: "auth_user option \<Rightarrow> backend" where
  "example_backend authUser \<equiv>
     table_backend authUser [(''A'', Some role_admin)]
       [\<lparr>perm_role_id = 1, resource_path = ''/settings'', can_access = True\<rparr>]"

text \<open>
  The provider after mounting with nobody signed in, a sign-in of actor \<open>A\<close>, and the
  completion of every resolution these two started.
\<close>

abbreviation A_signed_in :: provider_state where
  "A_signed_in \<equiv>
     run (example_backend None)
       [Resolves 0, AuthStateChange SIGNED_IN (Some actor_A),
        Resolves 0, Resolves 0, Resolves 0, Resolves 0, Resolves 0, Resolves 0]
       (mount None)"

text \<open>
  The form with its default values for actor data filled in, at rest; an e-mail pattern
  that asks for an at sign; and an invoicing API that answers every request with a given
  result.
\<close>

abbreviation example_client :: Client where
  "example_client \<equiv>
     \<lparr>client_id = None, tipo_documento = ''1'', numero_documento = ''12345678'',
      razon_social = ''Ana Torres Ruiz'', nombre_comercial = ''Ana Torres'',
      direccion = ''Av. Sol 123'', ubigeo = [], distrito = [], provincia = [],
      departamento = [], telefono = [], email = []\<rparr>"

abbreviation example_detalle :: Detalle where
  "example_detalle \<equiv>
     \<lparr>codigo = ''SERV'', descripcion = ''Elaboracion de Expediente Tecnico'', unidad = ''ZZ'',
      cantidad = 1, mto_valor_unitario = 250, porcentaje_igv = 18, tip_afe_igv = ''10'',
      codigo_producto_sunat = ''00001''\<rparr>"

abbreviation example_values :: "Detalle list \<Rightarrow> BoletaFormValues" where
  "example_values ds \<equiv>
     \<lparr>serie = ''B001'', fecha_emision = ''2025-07-28'', moneda = ''PEN'',
      tipo_operacion = ''0101'', metodo_envio = ''resumen_diario'',
      forma_pago_tipo = ''Contado'', usuario_creacion = ''admin_user'',
      client = example_client, detalles = ds\<rparr>"

abbreviation form_at_rest :: BoletaForm_state where
  "form_at_rest \<equiv>
     \<lparr>isSubmitting = False, isClientSearching = False, isGeneratingPdf = False,
      lastIssuedBoleta = None, currentSocioId = None, form_errors = [], toasts = [],
      api_calls = []\<rparr>"

abbreviation has_at_sign :: "string \<Rightarrow> bool" where
  "has_at_sign s \<equiv> CHR ''@'' \<in> set s"

abbreviation example_api :: "axios_result \<Rightarrow> invoicing_api" where
  "example_api answer \<equiv>
     \<lparr>post_boletas = (\<lambda>payload. answer),
      post_generate_pdf = (\<lambda>boletaId fmt. AxiosResponse JNull),
      JSON_stringify = (\<lambda>v. ''{}''),
      ToString = (\<lambda>v. ''[object Object]''),
      ZodError_message = (\<lambda>v. ''Required''),
      TypeError_message = ''Cannot read properties of null''\<rparr>"

abbreviation issue_body :: "bool \<Rightarrow> json" where
  "issue_body flag \<equiv>
     JObj [(''success'', JBool flag), (''message'', JStr ''ok''),
           (''data'', JObj [(''id'', JNum 42), (''numero_completo'', JStr ''B001-00042'')])]"


section \<open>Theorems: role/permission resolver\<close>

lemma set_fetchedRoles_of:
  "set (fetchedRoles_of rows) = {role_name r | r. Some r \<in> set rows \<and> role_name r \<noteq> []}"
  by (induction rows) (auto simp: fetchedRoles_of_def split: option.splits)

lemma set_roleIds_of:
  "set (roleIds_of rows) = {role_id r | r. Some r \<in> set rows \<and> role_id r \<noteq> 0}"
  by (induction rows) (auto simp: roleIds_of_def split: option.splits)

lemma fetchedRoles_of_Nil_iff:
  "fetchedRoles_of rows = [] \<longleftrightarrow> \<not> (\<exists>r. Some r \<in> set rows \<and> role_name r \<noteq> [])"
proof -
  have "fetchedRoles_of rows = [] \<longleftrightarrow> set (fetchedRoles_of rows) = {}" by simp
  then show ?thesis unfolding set_fetchedRoles_of by auto
qed

lemma permissions_after_tables:
  "permissions (fetchUserAndRolesAndPermissions (table_backend (Some u) user_roles resource_permissions) s) =
   (let rows = map snd (filter (\<lambda>row. fst row = user_id u) user_roles);
        paths = map resource_path
                  (filter (\<lambda>row. perm_role_id row \<in> set (roleIds_of rows) \<and> can_access row)
                     resource_permissions)
    in Some (if fetchedRoles_of rows \<noteq> [] \<and> paths \<noteq> [] then insert ''/'' (set paths) else {}))"
  by (auto simp: fetchUserAndRolesAndPermissions_def table_backend_def after_getUser_def
      after_user_roles_def after_resource_permissions_def user_roles_query_def permissions_query_def
      issue_def finally_block_def Let_def filter_empty_conv)

text \<open>
  What the resolver stores for any membership rows: \<open>named\<close> says that one of the
  rows carries a role with a non-empty name, and \<open>fetched\<close> are the paths of the
  allowed grants of the roles with a non-zero identifier.
\<close>

lemma permissions_characterised:
  fixes user_roles :: "(string \<times> role_obj option) list"
  assumes rows: "rows = map snd (filter (\<lambda>row. fst row = user_id u) user_roles)"
    and named: "named \<longleftrightarrow> (\<exists>r. Some r \<in> set rows \<and> role_name r \<noteq> [])"
    and fetched: "fetched = {resource_path g | g. g \<in> set resource_permissions \<and> can_access g \<and>
                    (\<exists>r. Some r \<in> set rows \<and> role_id r \<noteq> 0 \<and> perm_role_id g = role_id r)}"
  shows "permissions (fetchUserAndRolesAndPermissions
                  (table_backend (Some u) user_roles resource_permissions) s) =
         Some (if named \<and> fetched \<noteq> {} then insert ''/'' fetched else {})"
proof -
  let ?paths = "map resource_path
                  (filter (\<lambda>row. perm_role_id row \<in> set (roleIds_of rows) \<and> can_access row)
                     resource_permissions)"
  have g: "set ?paths = fetched"
    unfolding fetched set_roleIds_of by auto
  have n: "fetchedRoles_of rows \<noteq> [] \<longleftrightarrow> named"
    unfolding named fetchedRoles_of_Nil_iff by simp
  have e: "?paths \<noteq> [] \<longleftrightarrow> fetched \<noteq> {}"
    using g by (metis set_empty)
  show ?thesis
    unfolding permissions_after_tables Let_def rows[symmetric] n e g by simp
qed

text \<open>
  C1, for role rows that all carry a name and a non-zero identifier. \<open>rows\<close> are the
  actor's membership rows and \<open>granted\<close> the paths of the allowed grants of the actor's
  roles. The root path is in the resolved permission set exactly when \<open>granted\<close> is not
  empty; the set is empty for an actor without membership rows (and whenever \<open>granted\<close>
  is empty); otherwise it is \<open>granted\<close> and the root path, and adding the root path
  again changes nothing.
\<close>

theorem effective_permission_set_root:
  fixes user_roles :: "(string \<times> role_obj option) list"
  assumes rows: "rows = map snd (filter (\<lambda>row. fst row = user_id u) user_roles)"
    and well_formed: "\<forall>r. Some r \<in> set rows \<longrightarrow> role_name r \<noteq> [] \<and> role_id r \<noteq> 0"
    and granted: "granted = {resource_path g | g. g \<in> set resource_permissions \<and> can_access g \<and>
                    (\<exists>r. Some r \<in> set rows \<and> perm_role_id g = role_id r)}"
  shows "\<exists>P. permissions (fetchUserAndRolesAndPermissions
                  (table_backend (Some u) user_roles resource_permissions) s) = Some P \<and>
             (''/'' \<in> P \<longleftrightarrow> granted \<noteq> {}) \<and>
             (rows = [] \<longrightarrow> P = {}) \<and>
             (granted = {} \<longrightarrow> P = {}) \<and>
             (granted \<noteq> {} \<longrightarrow> P = insert ''/'' granted \<and> insert ''/'' P = P)"
proof -
  define named where "named \<longleftrightarrow> (\<exists>r. Some r \<in> set rows \<and> role_name r \<noteq> [])"
  have same: "granted = {resource_path g | g. g \<in> set resource_permissions \<and> can_access g \<and>
                    (\<exists>r. Some r \<in> set rows \<and> role_id r \<noteq> 0 \<and> perm_role_id g = role_id r)}"
    unfolding granted using well_formed by blast
  have "granted \<noteq> {} \<Longrightarrow> named"
    unfolding granted named_def using well_formed by blast
  moreover have "rows = [] \<Longrightarrow> granted = {}"
    unfolding granted by simp
  moreover have "permissions (fetchUserAndRolesAndPermissions
                  (table_backend (Some u) user_roles resource_permissions) s) =
         Some (if named \<and> granted \<noteq> {} then insert ''/'' granted else {})"
    by (rule permissions_characterised [OF rows _ same]) (simp add: named_def)
  ultimately show ?thesis by auto
qed

text \<open>
  The theorem at actor \<open>A\<close> of the example backend: the permission set is
  \<open>/settings\<close> and the root path.
\<close>

theorem effective_permission_set_root_witness:
  "\<exists>P. permissions (fetchUserAndRolesAndPermissions (example_backend (Some actor_A)) at_rest)
         = Some P \<and>
       P = {''/'', ''/settings''} \<and> ''/'' \<in> P \<and> insert ''/'' P = P"
proof -
  have g: "{''/settings''} = {resource_path g | g.
             g \<in> set [\<lparr>perm_role_id = 1, resource_path = ''/settings'', can_access = True\<rparr>] \<and>
             can_access g \<and>
             (\<exists>r. Some r \<in> set [Some role_admin] \<and> perm_role_id g = role_id r)}"
    by auto
  have r: "[Some role_admin] =
           map snd (filter (\<lambda>row. fst row = user_id actor_A) [(''A'', Some role_admin)])"
    by simp
  have w: "\<forall>r. Some r \<in> set [Some role_admin] \<longrightarrow> role_name r \<noteq> [] \<and> role_id r \<noteq> 0"
    by simp
  show ?thesis
    using effective_permission_set_root [OF r w g, of at_rest] by auto
qed

text \<open>
  C1 as the specification words it fails: the actor below holds the role \<open>admin\<close>, whose
  identifier is 0, and that role is granted \<open>/people\<close>. The resolver stores the role name,
  finds no usable role identifier, and sets the empty permission set, without the root
  path.
\<close>

theorem effective_permission_set_counterexample:
  "(''A'', Some \<lparr>role_id = 0, role_name = ''admin''\<rparr>)
     \<in> set [(''A'', Some \<lparr>role_id = 0, role_name = ''admin''\<rparr>)] \<and>
   \<lparr>perm_role_id = 0, resource_path = ''/people'', can_access = True\<rparr>
     \<in> set [\<lparr>perm_role_id = 0, resource_path = ''/people'', can_access = True\<rparr>] \<and>
   perm_role_id \<lparr>perm_role_id = 0, resource_path = ''/people'', can_access = True\<rparr>
     = role_id \<lparr>role_id = 0, role_name = ''admin''\<rparr> \<and>
   can_access \<lparr>perm_role_id = 0, resource_path = ''/people'', can_access = True\<rparr> \<and>
   roles (fetchUserAndRolesAndPermissions
          (table_backend (Some actor_A)
             [(''A'', Some \<lparr>role_id = 0, role_name = ''admin''\<rparr>)]
             [\<lparr>perm_role_id = 0, resource_path = ''/people'', can_access = True\<rparr>])
          at_rest) = Some [''admin''] \<and>
   permissions (fetchUserAndRolesAndPermissions
          (table_backend (Some actor_A)
             [(''A'', Some \<lparr>role_id = 0, role_name = ''admin''\<rparr>)]
             [\<lparr>perm_role_id = 0, resource_path = ''/people'', can_access = True\<rparr>])
          at_rest) = Some {}"
  by (simp add: fetchUserAndRolesAndPermissions_def table_backend_def after_getUser_def
      after_user_roles_def user_roles_query_def issue_def finally_block_def
      fetchedRoles_of_def roleIds_of_def)


text \<open>
  C2, as the code has it. When the role fetch fails, or the role fetch succeeds with at
  least one named role and one non-zero role identifier and the permission fetch fails,
  a resolution that nothing interleaves with makes no further call (\<open>sent\<close> lists all
  of them), and ends with roles and permission set both \<open>null\<close> and loading off. The
  error goes to \<open>console.error\<close>, once where it is thrown and once in the \<open>catch\<close>
  block; the context handed to the consumers does not depend on it.
\<close>

theorem fetch_failure_fail_closed:
  assumes u: "getUser be = Some u"
    and rows: "rows = (case data (select_user_roles be (user_id u)) of Some rs \<Rightarrow> rs | None \<Rightarrow> [])"
    and failure:
      "error (select_user_roles be (user_id u)) = Some e \<and>
         sent = [GetUser, SelectUserRoles (user_id u)]
       \<or> error (select_user_roles be (user_id u)) = None \<and>
         fetchedRoles_of rows \<noteq> [] \<and> roleIds_of rows \<noteq> [] \<and>
         error (select_resource_permissions be (roleIds_of rows)) = Some e \<and>
         sent = [GetUser, SelectUserRoles (user_id u), SelectResourcePermissions (roleIds_of rows)]"
  shows "user_context.truncate (fetchUserAndRolesAndPermissions be s) =
           \<lparr>user = Some u, roles = None, permissions = None, loading = False\<rparr> \<and>
         requests (fetchUserAndRolesAndPermissions be s) = requests s @ sent \<and>
         console_error (fetchUserAndRolesAndPermissions be s) = console_error s @ [e, e]"
  using failure
proof
  assume "error (select_user_roles be (user_id u)) = Some e \<and>
          sent = [GetUser, SelectUserRoles (user_id u)]"
  then show ?thesis
    by (simp add: fetchUserAndRolesAndPermissions_def u after_getUser_def after_user_roles_def
        issue_def finally_block_def catch_block_def user_context.truncate_def)
next
  assume "error (select_user_roles be (user_id u)) = None \<and>
         fetchedRoles_of rows \<noteq> [] \<and> roleIds_of rows \<noteq> [] \<and>
         error (select_resource_permissions be (roleIds_of rows)) = Some e \<and>
         sent = [GetUser, SelectUserRoles (user_id u), SelectResourcePermissions (roleIds_of rows)]"
  then show ?thesis
    by (simp add: fetchUserAndRolesAndPermissions_def u after_getUser_def after_user_roles_def
        after_resource_permissions_def rows[symmetric]
        issue_def finally_block_def catch_block_def user_context.truncate_def)
qed

text \<open>
  The theorem at actor \<open>A\<close>, who holds the role \<open>admin\<close> (identifier 1), when the
  permission fetch fails with a timeout.
\<close>

theorem fetch_failure_fail_closed_witness:
  "user_context.truncate
     (fetchUserAndRolesAndPermissions
        \<lparr>getUser = Some actor_A,
         select_user_roles = (\<lambda>uid. \<lparr>data = Some [Some role_admin], error = None\<rparr>),
         select_resource_permissions = (\<lambda>ids. \<lparr>data = None, error = Some error_timeout\<rparr>)\<rparr>
        at_rest) =
     \<lparr>user = Some actor_A, roles = None, permissions = None, loading = False\<rparr> \<and>
   requests
     (fetchUserAndRolesAndPermissions
        \<lparr>getUser = Some actor_A,
         select_user_roles = (\<lambda>uid. \<lparr>data = Some [Some role_admin], error = None\<rparr>),
         select_resource_permissions = (\<lambda>ids. \<lparr>data = None, error = Some error_timeout\<rparr>)\<rparr>
        at_rest) =
     [GetUser, SelectUserRoles ''A'', SelectResourcePermissions [1]] \<and>
   console_error
     (fetchUserAndRolesAndPermissions
        \<lparr>getUser = Some actor_A,
         select_user_roles = (\<lambda>uid. \<lparr>data = Some [Some role_admin], error = None\<rparr>),
         select_resource_permissions = (\<lambda>ids. \<lparr>data = None, error = Some error_timeout\<rparr>)\<rparr>
        at_rest) =
     [error_timeout, error_timeout]"
proof -
  let ?be = "\<lparr>getUser = Some actor_A,
         select_user_roles = (\<lambda>uid. \<lparr>data = Some [Some role_admin], error = None\<rparr>),
         select_resource_permissions = (\<lambda>ids. \<lparr>data = None, error = Some error_timeout\<rparr>)\<rparr>"
  have ids: "roleIds_of [Some role_admin] = [1]"
    by (simp add: roleIds_of_def)
  have names: "fetchedRoles_of [Some role_admin] = [''admin'']"
    by (simp add: fetchedRoles_of_def)
  have "user_context.truncate (fetchUserAndRolesAndPermissions ?be at_rest) =
           \<lparr>user = Some actor_A, roles = None, permissions = None, loading = False\<rparr> \<and>
         requests (fetchUserAndRolesAndPermissions ?be at_rest) =
           requests at_rest @ [GetUser, SelectUserRoles ''A'', SelectResourcePermissions [1]] \<and>
         console_error (fetchUserAndRolesAndPermissions ?be at_rest) =
           console_error at_rest @ [error_timeout, error_timeout]"
    by (rule fetch_failure_fail_closed [where rows = "[Some role_admin]"])
       (simp_all add: ids names)
  then show ?thesis
    by simp
qed

text \<open>
  The last part of C2 fails. Two role fetches that fail with different errors
  leave the same context: what \<open>useUser\<close> returns has no trace of the error, which
  only \<open>console.error\<close> received.
\<close>

theorem fetch_failure_counterexample:
  "user_context.truncate
     (fetchUserAndRolesAndPermissions
        \<lparr>getUser = Some actor_A,
         select_user_roles = (\<lambda>uid. \<lparr>data = None, error = Some error_timeout\<rparr>),
         select_resource_permissions = (\<lambda>ids. \<lparr>data = Some [], error = None\<rparr>)\<rparr>
        at_rest) =
   user_context.truncate
     (fetchUserAndRolesAndPermissions
        \<lparr>getUser = Some actor_A,
         select_user_roles = (\<lambda>uid. \<lparr>data = None, error = Some error_denied\<rparr>),
         select_resource_permissions = (\<lambda>ids. \<lparr>data = Some [], error = None\<rparr>)\<rparr>
        at_rest) \<and>
   error_timeout \<noteq> error_denied \<and>
   user_context.truncate
     (fetchUserAndRolesAndPermissions
        \<lparr>getUser = Some actor_A,
         select_user_roles = (\<lambda>uid. \<lparr>data = None, error = Some error_timeout\<rparr>),
         select_resource_permissions = (\<lambda>ids. \<lparr>data = Some [], error = None\<rparr>)\<rparr>
        at_rest) =
     \<lparr>user = Some actor_A, roles = None, permissions = None, loading = False\<rparr> \<and>
   console_error
     (fetchUserAndRolesAndPermissions
        \<lparr>getUser = Some actor_A,
         select_user_roles = (\<lambda>uid. \<lparr>data = None, error = Some error_timeout\<rparr>),
         select_resource_permissions = (\<lambda>ids. \<lparr>data = Some [], error = None\<rparr>)\<rparr>
        at_rest) =
     [error_timeout, error_timeout]"
  by (simp add: fetchUserAndRolesAndPermissions_def after_getUser_def after_user_roles_def
      issue_def finally_block_def catch_block_def user_context.truncate_def)


section \<open>Theorems: session store\<close>

lemmas resolver_stage_defs = after_getUser_def after_user_roles_def
  after_resource_permissions_def issue_def finally_block_def catch_block_def

lemmas provider_step_defs = run_def fetch_begin_def useEffect_rerun_def resolve_at_def

text \<open>
  In the provider, a resolution started while no other is suspended and resumed three
  times in a row, with no auth event in between, leaves the context that
  \<open>fetchUserAndRolesAndPermissions\<close> computes in one go.
\<close>

lemma uninterrupted_run:
  assumes idle: "in_flight s = []"
  shows "user_context.truncate (run be [Resolves 0, Resolves 0, Resolves 0] (fetch_begin s)) =
         user_context.truncate (fetchUserAndRolesAndPermissions (be\<lparr>getUser := auth_session s\<rparr>) s)"
proof (cases "auth_session s")
  case None
  then show ?thesis
    using idle
    by (cases "user s")
       (simp_all add: provider_step_defs resolver_stage_defs fetchUserAndRolesAndPermissions_def
          user_context.truncate_def)
next
  case (Some u)
  let ?res = "select_user_roles be (user_id u)"
  show ?thesis
  proof (cases "error ?res")
    case e: (Some err)
    show ?thesis
      using idle Some e
      by (simp add: provider_step_defs resolver_stage_defs fetchUserAndRolesAndPermissions_def
          user_context.truncate_def)
  next
    case ok: None
    let ?rows = "case data ?res of Some rows \<Rightarrow> rows | None \<Rightarrow> []"
    show ?thesis
    proof (cases "fetchedRoles_of ?rows = [] \<or> roleIds_of ?rows = []")
      case True
      then show ?thesis
        using idle Some ok
        by (auto simp: provider_step_defs resolver_stage_defs fetchUserAndRolesAndPermissions_def
            user_context.truncate_def Let_def)
    next
      case False
      let ?pres = "select_resource_permissions be (roleIds_of ?rows)"
      show ?thesis
        using idle Some ok False
        by (cases "error ?pres")
           (auto simp: provider_step_defs resolver_stage_defs fetchUserAndRolesAndPermissions_def
            user_context.truncate_def Let_def)
    qed
  qed
qed





text \<open>
  An event of any kind but \<open>SIGNED_IN\<close> whose session carries the identifier of the
  current actor takes the other branch of the listener: it stores the actor and calls
  the resolver.
\<close>

lemma other_event_starts_resolution:
  assumes "user s = Some u" and "user_id su = user_id u" and "ev \<noteq> SIGNED_IN"
  shows "step be (AuthStateChange ev (Some su)) s =
           fetch_begin (s\<lparr>user := Some su, auth_session := Some su\<rparr>)"
  using assms by (simp add: onAuthStateChange_def useEffect_rerun_def fetch_begin_def issue_def)

lemma other_event_role_fetch:
  assumes "user s = Some u" and "user_id su = user_id u" and "ev \<noteq> SIGNED_IN"
    and "in_flight s = []"
  shows "requests (run be [AuthStateChange ev (Some su), Resolves 0] s) =
           requests s @ [GetUser, SelectUserRoles (user_id su)]"
  using assms
  by (simp add: run_def onAuthStateChange_def useEffect_rerun_def fetch_begin_def issue_def
      resolve_at_def after_getUser_def)

lemma other_event_full_resolution:
  assumes "user s = Some u" and "user_id su = user_id u" and "ev \<noteq> SIGNED_IN"
    and "in_flight s = []"
  shows "user_context.truncate
           (run be [AuthStateChange ev (Some su), Resolves 0, Resolves 0, Resolves 0] s) =
         user_context.truncate
           (fetchUserAndRolesAndPermissions (be\<lparr>getUser := Some su\<rparr>)
              (s\<lparr>user := Some su, auth_session := Some su\<rparr>))"
proof -
  let ?s1 = "s\<lparr>user := Some su, auth_session := Some su\<rparr>"
  have "run be [AuthStateChange ev (Some su), Resolves 0, Resolves 0, Resolves 0] s =
        run be [Resolves 0, Resolves 0, Resolves 0] (step be (AuthStateChange ev (Some su)) s)"
    by (simp add: run_def)
  also have "\<dots> = run be [Resolves 0, Resolves 0, Resolves 0] (fetch_begin ?s1)"
    using other_event_starts_resolution [OF assms(1-3)] by simp
  finally show ?thesis
    using uninterrupted_run [of ?s1 be] assms(4) by simp
qed

text \<open>
  C4, as the code has it. A \<open>SIGNED_IN\<close> event whose session carries the identifier of
  the current actor replaces the actor record and switches the loading flag off, and
  nothing else: roles and permission set stay, no resolution is started and no call is
  made to a collaborator. An event of any other kind with such a session stores the
  actor, switches loading on and suspends a new resolution at \<open>getUser\<close>; when no other
  resolution is suspended, resuming it makes the role query for that actor, and resuming
  it to its end leaves the context of a full resolution.
\<close>

theorem same_actor_signed_in_no_fetch:
  assumes "user s = Some u" and "user_id su = user_id u"
  shows "step be (AuthStateChange SIGNED_IN (Some su)) s =
           s\<lparr>user := Some su, loading := False, auth_session := Some su\<rparr> \<and>
         roles (step be (AuthStateChange SIGNED_IN (Some su)) s) = roles s \<and>
         permissions (step be (AuthStateChange SIGNED_IN (Some su)) s) = permissions s \<and>
         requests (step be (AuthStateChange SIGNED_IN (Some su)) s) = requests s \<and>
         in_flight (step be (AuthStateChange SIGNED_IN (Some su)) s) = in_flight s \<and>
         (ev \<noteq> SIGNED_IN \<longrightarrow>
            step be (AuthStateChange ev (Some su)) s =
              fetch_begin (s\<lparr>user := Some su, auth_session := Some su\<rparr>) \<and>
            loading (step be (AuthStateChange ev (Some su)) s) = True \<and>
            in_flight (step be (AuthStateChange ev (Some su)) s) = in_flight s @ [GetUser] \<and>
            requests (step be (AuthStateChange ev (Some su)) s) = requests s @ [GetUser] \<and>
            (in_flight s = [] \<longrightarrow>
               requests (run be [AuthStateChange ev (Some su), Resolves 0] s) =
                 requests s @ [GetUser, SelectUserRoles (user_id su)] \<and>
               user_context.truncate
                 (run be [AuthStateChange ev (Some su), Resolves 0, Resolves 0, Resolves 0] s) =
               user_context.truncate
                 (fetchUserAndRolesAndPermissions (be\<lparr>getUser := Some su\<rparr>)
                    (s\<lparr>user := Some su, auth_session := Some su\<rparr>))))"
proof -
  have same: "step be (AuthStateChange SIGNED_IN (Some su)) s =
           s\<lparr>user := Some su, loading := False, auth_session := Some su\<rparr>"
    using assms by (simp add: onAuthStateChange_def useEffect_rerun_def)
  have other: "step be (AuthStateChange ev (Some su)) s =
              fetch_begin (s\<lparr>user := Some su, auth_session := Some su\<rparr>)"
    if "ev \<noteq> SIGNED_IN"
    using other_event_starts_resolution [OF assms that] .
  have begun: "loading (fetch_begin (s\<lparr>user := Some su, auth_session := Some su\<rparr>)) = True \<and>
      in_flight (fetch_begin (s\<lparr>user := Some su, auth_session := Some su\<rparr>)) =
        in_flight s @ [GetUser] \<and>
      requests (fetch_begin (s\<lparr>user := Some su, auth_session := Some su\<rparr>)) =
        requests s @ [GetUser]"
    by (simp add: fetch_begin_def issue_def)
  show ?thesis
    using same other begun other_event_role_fetch [OF assms, of ev be]
      other_event_full_resolution [OF assms, of ev be]
    by simp
qed

text \<open>
  The theorem at actor \<open>A\<close>, signed in and resolved, when a \<open>SIGNED_IN\<close> event
  brings the same identifier with a new e-mail address, and when a \<open>TOKEN_REFRESHED\<close>
  event brings the same actor.
\<close>

theorem same_actor_signed_in_no_fetch_witness:
  "user A_signed_in = Some actor_A \<and>
   user_id \<lparr>user_id = ''A'', user_email = ''a@example.net''\<rparr> = user_id actor_A \<and>
   user (step (example_backend None)
          (AuthStateChange SIGNED_IN (Some \<lparr>user_id = ''A'', user_email = ''a@example.net''\<rparr>))
          A_signed_in) = Some \<lparr>user_id = ''A'', user_email = ''a@example.net''\<rparr> \<and>
   roles (step (example_backend None)
          (AuthStateChange SIGNED_IN (Some \<lparr>user_id = ''A'', user_email = ''a@example.net''\<rparr>))
          A_signed_in) = Some [''admin''] \<and>
   permissions (step (example_backend None)
          (AuthStateChange SIGNED_IN (Some \<lparr>user_id = ''A'', user_email = ''a@example.net''\<rparr>))
          A_signed_in) = Some {''/'', ''/settings''} \<and>
   requests (step (example_backend None)
          (AuthStateChange SIGNED_IN (Some \<lparr>user_id = ''A'', user_email = ''a@example.net''\<rparr>))
          A_signed_in) = requests A_signed_in \<and>
   in_flight (step (example_backend None)
          (AuthStateChange SIGNED_IN (Some \<lparr>user_id = ''A'', user_email = ''a@example.net''\<rparr>))
          A_signed_in) = [] \<and>
   TOKEN_REFRESHED \<noteq> SIGNED_IN \<and>
   in_flight (step (example_backend None)
          (AuthStateChange TOKEN_REFRESHED
             (Some \<lparr>user_id = ''A'', user_email = ''a@example.net''\<rparr>))
          A_signed_in) = [GetUser] \<and>
   requests (run (example_backend None)
          [AuthStateChange TOKEN_REFRESHED
             (Some \<lparr>user_id = ''A'', user_email = ''a@example.net''\<rparr>), Resolves 0]
          A_signed_in) = requests A_signed_in @ [GetUser, SelectUserRoles ''A'']"
proof -
  have a: "user_context.truncate A_signed_in =
             \<lparr>user = Some actor_A, roles = Some [''admin''],
              permissions = Some {''/'', ''/settings''}, loading = False\<rparr> \<and>
           in_flight A_signed_in = []"
    by (simp add: run_def mount_def fetch_begin_def onAuthStateChange_def useEffect_rerun_def
        resolve_at_def table_backend_def after_getUser_def after_user_roles_def
        after_resource_permissions_def user_roles_query_def permissions_query_def issue_def
        finally_block_def fetchedRoles_of_def roleIds_of_def
        user_context.truncate_def)
  then have u: "user A_signed_in = Some actor_A"
    and r: "roles A_signed_in = Some [''admin'']"
    and p: "permissions A_signed_in = Some {''/'', ''/settings''}"
    and i: "in_flight A_signed_in = []"
    by (simp_all add: user_context.truncate_def)
  have e: "user_id \<lparr>user_id = ''A'', user_email = ''a@example.net''\<rparr> = user_id actor_A"
    by simp
  show ?thesis
    using same_actor_signed_in_no_fetch [OF u e, of "example_backend None" TOKEN_REFRESHED]
      u r p i
    by (simp del: step.simps add: fetch_begin_def issue_def)
qed

text \<open>
  C4 as the specification words it fails for a token refresh. Actor \<open>A\<close> is signed in
  and resolved; a \<open>TOKEN_REFRESHED\<close> event with the same actor switches loading on and
  starts a resolution, which calls \<open>getUser\<close>, the role query and the permission query.
\<close>

theorem token_refresh_counterexample:
  "map_option user_id (user A_signed_in) = Some (user_id actor_A) \<and>
   in_flight A_signed_in = [] \<and>
   loading (step (example_backend None) (AuthStateChange TOKEN_REFRESHED (Some actor_A))
              A_signed_in) = True \<and>
   in_flight (step (example_backend None) (AuthStateChange TOKEN_REFRESHED (Some actor_A))
              A_signed_in) = [GetUser] \<and>
   requests
     (run (example_backend None)
        [AuthStateChange TOKEN_REFRESHED (Some actor_A), Resolves 0, Resolves 0, Resolves 0]
        A_signed_in) =
     requests A_signed_in @ [GetUser, SelectUserRoles ''A'', SelectResourcePermissions [1]]"
  by (simp add: run_def mount_def fetch_begin_def onAuthStateChange_def useEffect_rerun_def
      resolve_at_def table_backend_def after_getUser_def after_user_roles_def
      after_resource_permissions_def user_roles_query_def permissions_query_def issue_def
      finally_block_def fetchedRoles_of_def roleIds_of_def)


text \<open>
  C5. The access check is a function of the resource path and the permission set alone
  (its value is fixed by these two arguments, and it has one for every pair); it is false
  for every path when the permission set is \<open>null\<close>, and on a present set it is exactly
  membership, so it is false for every path absent from the set.
\<close>

theorem isAuthorized_none_or_absent:
  "isAuthorized resourcePath None = False \<and>
   isAuthorized resourcePath (Some ps) = (resourcePath \<in> ps)"
  by (simp add: isAuthorized_def)


section \<open>Theorems: invoice form\<close>

lemma nearest_integer:
  fixes y :: rat
  shows "\<bar>of_int \<lfloor>y + 1/2\<rfloor> - y\<bar> \<le> \<bar>of_int m - y\<bar>"
proof -
  let ?n = "\<lfloor>y + 1/2\<rfloor>"
  have lo: "of_int ?n \<le> y + 1/2" by (rule of_int_floor_le)
  have hi: "y + 1/2 < of_int ?n + 1" by linarith
  consider "m = ?n" | "m \<le> ?n - 1" | "?n + 1 \<le> m" by linarith
  then show ?thesis
  proof cases
    case 1 then show ?thesis by simp
  next
    case 2
    then have "(of_int m :: rat) \<le> of_int ?n - 1"
      by (metis of_int_1 of_int_diff of_int_le_iff)
    with lo hi show ?thesis by linarith
  next
    case 3
    then have "(of_int ?n :: rat) + 1 \<le> of_int m"
      by (metis of_int_1 of_int_add of_int_le_iff)
    with lo hi show ?thesis by linarith
  qed
qed

lemma toFixed_2_nearest:
  assumes "\<bar>x\<bar> < 10 ^ 21"
  shows "\<exists>n::int. toFixed_2 x = of_int n / 100 \<and>
           (\<forall>m::int. \<bar>of_int n / 100 - x\<bar> \<le> \<bar>of_int m / 100 - x\<bar>)"
proof -
  let ?k = "\<lfloor>\<bar>x\<bar> * 100 + 1/2\<rfloor>"
  have near: "\<bar>of_int ?k - \<bar>x\<bar> * 100\<bar> \<le> \<bar>of_int j - \<bar>x\<bar> * 100\<bar>" for j :: int
    by (rule nearest_integer)
  show ?thesis
  proof (cases "0 \<le> x")
    case True
    have half: "\<lfloor>(1::rat) / 2\<rfloor> = 0"
      by (simp add: floor_eq_iff)
    have "\<bar>of_int ?k / 100 - x\<bar> \<le> \<bar>of_int m / 100 - x\<bar>" for m :: int
      using near [of m] True by (simp add: abs_if field_simps split: if_splits)
    moreover have "toFixed_2 x = of_int ?k / 100"
      using True assms half by (auto simp: toFixed_2_def sgn_if)
    ultimately show ?thesis by blast
  next
    case False
    then have t: "toFixed_2 x = of_int (- ?k) / 100"
      using assms by (simp add: toFixed_2_def sgn_if)
    have "\<bar>of_int (- ?k) / 100 - x\<bar> \<le> \<bar>of_int m / 100 - x\<bar>" for m :: int
      using near [of "- m"] False by (simp add: abs_if field_simps split: if_splits)
    with t show ?thesis by blast
  qed
qed

text \<open>
  The line items of the payload are those of the form with the unit value replaced by
  \<open>calculateBaseValue\<close> of it, and the payload is what \<open>onSubmit\<close> posts first.
\<close>

lemma detalles_payload_of:
  "detalles (payload_of vals) = processedDetails_of (detalles vals)"
  by (simp add: payload_of_def BoletaFormValues.extend_def)

lemma processedDetails_of_nth:
  assumes "i < length ds"
  shows "processedDetails_of ds ! i =
           (ds ! i)\<lparr>mto_valor_unitario :=
                      calculateBaseValue (mto_valor_unitario (ds ! i)) (porcentaje_igv (ds ! i))\<rparr>"
  using assms by (simp add: processedDetails_of_def Let_def)

lemma onSubmit_posts_payload:
  "\<exists>rest. api_calls (onSubmit api vals st) = api_calls st @ POST_boletas (payload_of vals) # rest"
proof (cases "issueBoleta api (payload_of vals)")
  case (Inl x)
  then show ?thesis
    by (simp add: onSubmit_def Let_def show_toast_def)
next
  case (Inr r)
  then show ?thesis
    by (simp add: onSubmit_def Let_def show_toast_def handleGeneratePdf_def split: option.splits)
qed

text \<open>
  C6, as the code has it. \<open>onSubmit\<close> posts the payload before anything else, and the
  payload has one line item for each line item \<open>d\<close> of the form, the same but for the
  unit value. For a positive tax percentage the unit value sent is the quotient
  \<open>mto_valor_unitario / (1 + porcentaje_igv / 100)\<close>, computed in binary64, written with
  two decimals and read back: below \<open>10\<^sup>2\<^sup>1\<close> the decimal written is \<open>n / 100\<close> for an
  integer \<open>n\<close>, and no other such decimal is closer to the quotient. A line item with
  the percentage zero is sent as it was entered. For 250 and 18 the value is the number
  211.86.
\<close>

theorem calculateBaseValue_rounds:
  assumes i: "i < length (detalles vals)" and d: "d = detalles vals ! i"
    and positive: "0 < porcentaje_igv d"
    and baseValue: "baseValue =
           js_divide (mto_valor_unitario d) (js_add 1 (js_divide (porcentaje_igv d) 100))"
  shows "(\<exists>rest. api_calls (onSubmit api vals st) =
                   api_calls st @ POST_boletas (payload_of vals) # rest) \<and>
         length (detalles (payload_of vals)) = length (detalles vals) \<and>
         detalles (payload_of vals) ! i =
           d\<lparr>mto_valor_unitario := parseFloat (toFixed_2 baseValue)\<rparr> \<and>
         (\<bar>baseValue\<bar> < 10 ^ 21 \<longrightarrow>
            (\<exists>n::int. toFixed_2 baseValue = of_int n / 100 \<and>
               (\<forall>m::int. \<bar>of_int n / 100 - baseValue\<bar> \<le> \<bar>of_int m / 100 - baseValue\<bar>))) \<and>
         (\<forall>j. j < length (detalles vals) \<and> porcentaje_igv (detalles vals ! j) = 0 \<longrightarrow>
              detalles (payload_of vals) ! j = detalles vals ! j) \<and>
         calculateBaseValue (mto_valor_unitario d) (porcentaje_igv d) =
           parseFloat (toFixed_2 baseValue) \<and>
         calculateBaseValue totalPrice 0 = totalPrice \<and>
         calculateBaseValue 250 18 = parseFloat (21186 / 100)"
proof -
  have a: "calculateBaseValue (mto_valor_unitario d) (porcentaje_igv d) =
             parseFloat (toFixed_2 baseValue)"
    using positive baseValue by (simp add: calculateBaseValue_def Let_def)
  have b: "calculateBaseValue totalPrice 0 = totalPrice"
    by (simp add: calculateBaseValue_def)
  have c: "calculateBaseValue 250 18 = parseFloat (21186 / 100)"
    by code_simp
  have len: "length (detalles (payload_of vals)) = length (detalles vals)"
    by (simp add: detalles_payload_of processedDetails_of_def)
  have sent: "detalles (payload_of vals) ! i =
                d\<lparr>mto_valor_unitario := parseFloat (toFixed_2 baseValue)\<rparr>"
    using processedDetails_of_nth [OF i] a d by (simp add: detalles_payload_of)
  have zero: "detalles (payload_of vals) ! j = detalles vals ! j"
    if "j < length (detalles vals)" and "porcentaje_igv (detalles vals ! j) = 0" for j
    using processedDetails_of_nth [OF that(1)] that(2)
    by (simp add: detalles_payload_of calculateBaseValue_def)
  show ?thesis
    using a b c len sent zero onSubmit_posts_payload [of api vals st]
      toFixed_2_nearest [of baseValue]
    by blast
qed

text \<open>
  The theorem at the form with its default line item, 250 with 18 percent: the line item
  of the payload carries 211.86.
\<close>

theorem calculateBaseValue_rounds_witness:
  "(0::nat) < length (detalles (example_values [example_detalle])) \<and>
   (0::rat) < porcentaje_igv example_detalle \<and>
   detalles (payload_of (example_values [example_detalle])) ! 0 =
     example_detalle\<lparr>mto_valor_unitario := parseFloat (21186 / 100)\<rparr> \<and>
   (\<exists>rest. api_calls
            (onSubmit (example_api (AxiosResponse (issue_body True)))
               (example_values [example_detalle]) form_at_rest) =
          POST_boletas (payload_of (example_values [example_detalle])) # rest) \<and>
   \<bar>js_divide 250 (js_add 1 (js_divide 18 100))\<bar> < 10 ^ 21 \<and>
   toFixed_2 (js_divide 250 (js_add 1 (js_divide 18 100))) = 21186 / 100"
proof -
  have i: "(0::nat) < length (detalles (example_values [example_detalle]))" by simp
  have d: "example_detalle = detalles (example_values [example_detalle]) ! 0" by simp
  have h: "(0::rat) < porcentaje_igv example_detalle" by simp
  have v: "js_divide 250 (js_add 1 (js_divide 18 100)) =
           js_divide (mto_valor_unitario example_detalle)
             (js_add 1 (js_divide (porcentaje_igv example_detalle) 100))"
    by simp
  have x: "\<bar>js_divide 250 (js_add 1 (js_divide 18 100))\<bar> < 10 ^ 21" by code_simp
  have f: "toFixed_2 (js_divide 250 (js_add 1 (js_divide 18 100))) = 21186 / 100" by code_simp
  note th = calculateBaseValue_rounds
        [OF i d h v, of "example_api (AxiosResponse (issue_body True))" form_at_rest]
  from th have "detalles (payload_of (example_values [example_detalle])) ! 0 =
     example_detalle\<lparr>mto_valor_unitario :=
       parseFloat (toFixed_2 (js_divide 250 (js_add 1 (js_divide 18 100))))\<rparr>"
    by blast
  then have s: "detalles (payload_of (example_values [example_detalle])) ! 0 =
     example_detalle\<lparr>mto_valor_unitario := parseFloat (21186 / 100)\<rparr>"
    unfolding f .
  from th have "\<exists>rest. api_calls
            (onSubmit (example_api (AxiosResponse (issue_body True)))
               (example_values [example_detalle]) form_at_rest) =
          api_calls form_at_rest @
            POST_boletas (payload_of (example_values [example_detalle])) # rest"
    by blast
  then have p: "\<exists>rest. api_calls
            (onSubmit (example_api (AxiosResponse (issue_body True)))
               (example_values [example_detalle]) form_at_rest) =
          POST_boletas (payload_of (example_values [example_detalle])) # rest"
    by simp
  show ?thesis
    using i h s p x f by blast
qed

text \<open>
  C6 as the specification words it fails for the tax percentage zero: the value 0.125
  (a binary64 value) is returned unchanged, while the quotient, rounded to two decimals,
  is 0.13.
  The schema of the form accepts a line item with this value and percentage, and the
  payload built from it carries 0.125.
\<close>

theorem calculateBaseValue_counterexample:
  "double_of (1 / 8) = 1 / 8 \<and>
   calculateBaseValue (1 / 8) 0 = 1 / 8 \<and>
   parseFloat (toFixed_2 (js_divide (1 / 8) (js_add 1 (js_divide 0 100)))) = parseFloat (13 / 100) \<and>
   calculateBaseValue (1 / 8) 0 \<noteq>
     parseFloat (toFixed_2 (js_divide (1 / 8) (js_add 1 (js_divide 0 100)))) \<and>
   BoletaPayloadSchema has_at_sign
     (example_values [example_detalle\<lparr>mto_valor_unitario := 1 / 8, porcentaje_igv := 0\<rparr>]) = [] \<and>
   map mto_valor_unitario
     (detalles (payload_of
        (example_values [example_detalle\<lparr>mto_valor_unitario := 1 / 8, porcentaje_igv := 0\<rparr>])))
     = [1 / 8]"
proof -
  have n: "double_of (1 / 8) = 1 / 8 \<and>
     calculateBaseValue (1 / 8) 0 = 1 / 8 \<and>
     parseFloat (toFixed_2 (js_divide (1 / 8) (js_add 1 (js_divide 0 100)))) = parseFloat (13 / 100) \<and>
     calculateBaseValue (1 / 8) 0 \<noteq>
       parseFloat (toFixed_2 (js_divide (1 / 8) (js_add 1 (js_divide 0 100))))"
    by code_simp
  have q: "\<not> (1::rat) < double_of (1 / 100)" by code_simp
  have v: "BoletaPayloadSchema has_at_sign
     (example_values [example_detalle\<lparr>mto_valor_unitario := 1 / 8, porcentaje_igv := 0\<rparr>]) = []"
    using q by (simp add: BoletaPayloadSchema_def ClientSchema_def DetalleSchema_def
        string_min_def number_min_def)
  have p: "map mto_valor_unitario
     (detalles (payload_of
        (example_values [example_detalle\<lparr>mto_valor_unitario := 1 / 8, porcentaje_igv := 0\<rparr>])))
     = [1 / 8]"
    by (simp add: payload_of_def processedDetails_of_def calculateBaseValue_def
        BoletaFormValues.extend_def)
  show ?thesis
    using n v p by blast
qed

section \<open>Theorems: validation\<close>


lemma double_of_hundredth_pos: "0 < double_of (1 / 100)" by code_simp

lemma detalle_issues_subset:
  assumes "i < length (detalles vals)"
    and "x \<in> set (DetalleSchema (detalles vals ! i) [Key ''detalles'', Index i])"
  shows "x \<in> set (BoletaPayloadSchema is_email vals)"
proof -
  have "(i, detalles vals ! i) \<in> set (enumerate 0 (detalles vals))"
    using assms(1) by (simp add: in_set_enumerate_eq)
  then show ?thesis
    using assms(2) by (fastforce simp: BoletaPayloadSchema_def)
qed

lemma cantidad_issue:
  assumes "i < length (detalles vals)" and "cantidad (detalles vals ! i) \<le> 0"
  shows "([Key ''detalles'', Index i, Key ''cantidad''], ''Cantidad debe ser mayor a 0.'')
           \<in> set (BoletaPayloadSchema is_email vals)"
proof (rule detalle_issues_subset [OF assms(1)])
  have "cantidad (detalles vals ! i) < double_of (1 / 100)"
    using assms(2) double_of_hundredth_pos by linarith
  then show "([Key ''detalles'', Index i, Key ''cantidad''], ''Cantidad debe ser mayor a 0.'')
           \<in> set (DetalleSchema (detalles vals ! i) [Key ''detalles'', Index i])"
    by (simp add: DetalleSchema_def number_min_def)
qed

lemma valor_issue:
  assumes "i < length (detalles vals)" and "mto_valor_unitario (detalles vals ! i) < 0"
  shows "([Key ''detalles'', Index i, Key ''mto_valor_unitario''], ''Precio debe ser 0 o mayor.'')
           \<in> set (BoletaPayloadSchema is_email vals)"
proof (rule detalle_issues_subset [OF assms(1)])
  show "([Key ''detalles'', Index i, Key ''mto_valor_unitario''], ''Precio debe ser 0 o mayor.'')
           \<in> set (DetalleSchema (detalles vals ! i) [Key ''detalles'', Index i])"
    using assms(2) by (simp add: DetalleSchema_def number_min_def)
qed

lemma no_detalles_issue:
  assumes "detalles vals = []"
  shows "([Key ''detalles''], ''Debe haber al menos un detalle.'')
           \<in> set (BoletaPayloadSchema is_email vals)"
  using assms by (simp add: BoletaPayloadSchema_def)

text \<open>
  C7. A request with no line item, with a line item whose quantity is not positive, or
  with a line item whose unit value is negative has a validation issue at the field
  concerned; \<open>handleSubmit\<close> then stores the issues and does nothing else: no request
  is sent to the API, no document is stored, and the submit button is disabled as well.
\<close>

theorem invalid_request_rejected_locally:
  assumes "detalles vals = [] \<and>
             shown = ([Key ''detalles''], ''Debe haber al menos un detalle.'')
           \<or> i < length (detalles vals) \<and> cantidad (detalles vals ! i) \<le> 0 \<and>
             shown = ([Key ''detalles'', Index i, Key ''cantidad''], ''Cantidad debe ser mayor a 0.'')
           \<or> i < length (detalles vals) \<and> mto_valor_unitario (detalles vals ! i) < 0 \<and>
             shown = ([Key ''detalles'', Index i, Key ''mto_valor_unitario''],
                      ''Precio debe ser 0 o mayor.'')"
  shows "shown \<in> set (BoletaPayloadSchema is_email vals) \<and>
         handleSubmit is_email api vals st =
           st\<lparr>form_errors := BoletaPayloadSchema is_email vals\<rparr> \<and>
         api_calls (handleSubmit is_email api vals st) = api_calls st \<and>
         lastIssuedBoleta (handleSubmit is_email api vals st) = lastIssuedBoleta st \<and>
         submit_disabled is_email vals st"
proof -
  have in_issues: "shown \<in> set (BoletaPayloadSchema is_email vals)"
    using assms no_detalles_issue cantidad_issue valor_issue by blast
  then have "BoletaPayloadSchema is_email vals \<noteq> []" by auto
  then show ?thesis
    using in_issues by (simp add: handleSubmit_def submit_disabled_def)
qed

text \<open>The theorem at a request with no line item.\<close>

theorem invalid_request_rejected_locally_witness:
  "detalles (example_values []) = [] \<and>
   handleSubmit has_at_sign (example_api (AxiosResponse (issue_body True))) (example_values [])
     form_at_rest =
     form_at_rest\<lparr>form_errors := [([Key ''detalles''], ''Debe haber al menos un detalle.'')]\<rparr> \<and>
   api_calls
     (handleSubmit has_at_sign (example_api (AxiosResponse (issue_body True))) (example_values [])
        form_at_rest) = []"
proof -
  have d: "detalles (example_values []) = []" by simp
  have i: "BoletaPayloadSchema has_at_sign (example_values []) =
             [([Key ''detalles''], ''Debe haber al menos un detalle.'')]"
    by (simp add: BoletaPayloadSchema_def ClientSchema_def string_min_def)
  show ?thesis
    using d i
      invalid_request_rejected_locally
        [where vals = "example_values []" and is_email = has_at_sign
           and shown = "([Key ''detalles''], ''Debe haber al menos un detalle.'')"
           and api = "example_api (AxiosResponse (issue_body True))" and st = form_at_rest]
    by simp
qed


section \<open>Theorems: client lookup\<close>

text \<open>
  C8. A document number shorter than 8 characters gives \<open>null\<close> and no query is made.
  From 8 characters on one query is made: when it finds no row (no data, and no error or
  the error code \<open>PGRST116\<close> of an empty result) the result is \<open>null\<close>; when it finds
  a row the result is the client built from it; when the query rejects or answers with
  any other error, the lookup throws an \<open>Error\<close>, which is not the \<open>null\<close> result.
  The only call made is that read query.
\<close>

theorem fetchClientByDocument_contract:
  "(length docNumber < 8 \<longrightarrow>
      fetchClientByDocument select_socio docNumber = (Fulfilled None, [])) \<and>
   (8 \<le> length docNumber \<and> select_socio docNumber = Fulfilled res \<and> data res = None \<and>
    (error res = None \<or> error res = Some e \<and> error_code e = ''PGRST116'') \<longrightarrow>
      fetchClientByDocument select_socio docNumber = (Fulfilled None, [docNumber])) \<and>
   (8 \<le> length docNumber \<and> select_socio docNumber = Fulfilled res \<and> data res = Some row \<and>
    (error res = None \<or> error res = Some e \<and> error_code e = ''PGRST116'') \<longrightarrow>
      fetchClientByDocument select_socio docNumber =
        (Fulfilled (Some (clientData_of row)), [docNumber])) \<and>
   (8 \<le> length docNumber \<and>
    (select_socio docNumber = Rejected x \<or>
     select_socio docNumber = Fulfilled res \<and> error res = Some e \<and> error_code e \<noteq> ''PGRST116'') \<longrightarrow>
      (\<exists>m. fetchClientByDocument select_socio docNumber = (Rejected (JsError m), [docNumber])) \<and>
      fst (fetchClientByDocument select_socio docNumber) \<noteq> Fulfilled None)"
  by (cases x) (auto simp: fetchClientByDocument_def fetchClient_try_def fetchClient_catch_def)

text \<open>
  The theorem at a number of 7 characters, and at a number of 8 characters when no row
  is found and when the query fails with a timeout.
\<close>

theorem fetchClientByDocument_contract_witness:
  "length ''1234567'' < 8 \<and>
   fetchClientByDocument (\<lambda>d. Rejected NotAnError) ''1234567'' = (Fulfilled None, []) \<and>
   8 \<le> length ''12345678'' \<and>
   fetchClientByDocument
     (\<lambda>d. Fulfilled \<lparr>data = None,
                      error = Some \<lparr>error_code = ''PGRST116'', error_message = ''no rows''\<rparr>\<rparr>)
     ''12345678'' = (Fulfilled None, [''12345678'']) \<and>
   (\<exists>m. fetchClientByDocument (\<lambda>d. Fulfilled \<lparr>data = None, error = Some error_timeout\<rparr>)
          ''12345678'' = (Rejected (JsError m), [''12345678'']))"
proof -
  have a: "length ''1234567'' < 8" by simp
  have b: "8 \<le> length ''12345678''" by simp
  show ?thesis
    using a b
      fetchClientByDocument_contract
        [where docNumber = "''1234567''" and select_socio = "\<lambda>d. Rejected NotAnError"]
      fetchClientByDocument_contract
        [where docNumber = "''12345678''"
           and select_socio = "\<lambda>d. Fulfilled \<lparr>data = None,
                      error = Some \<lparr>error_code = ''PGRST116'', error_message = ''no rows''\<rparr>\<rparr>"
           and res = "\<lparr>data = None,
                      error = Some \<lparr>error_code = ''PGRST116'', error_message = ''no rows''\<rparr>\<rparr>"
           and e = "\<lparr>error_code = ''PGRST116'', error_message = ''no rows''\<rparr>"]
      fetchClientByDocument_contract
        [where docNumber = "''12345678''"
           and select_socio = "\<lambda>d. Fulfilled \<lparr>data = None, error = Some error_timeout\<rparr>"
           and res = "\<lparr>data = None, error = Some error_timeout\<rparr>"
           and e = error_timeout]
    by simp
qed


section \<open>Theorems: invoice issuance\<close>

lemma onSubmit_failure:
  assumes "issueBoleta api (payload_of vals) = Inl x"
  shows "onSubmit api vals st =
           st\<lparr>isSubmitting := False, lastIssuedBoleta := None,
              api_calls := api_calls st @ [POST_boletas (payload_of vals)],
              toasts := toasts st @
                [\<lparr>title = ''Error de Emisi'' @ [o_acute] @ ''n'',
                  description = message_or (''Ocurri'' @ [o_acute] @ '' un error inesperado.'') x,
                  variant = Destructive\<rparr>]\<rparr>"
  using assms by (simp add: onSubmit_def Let_def show_toast_def)

lemma onSubmit_issued:
  assumes "issueBoleta api (payload_of vals) = Inr r"
  shows "onSubmit api vals st =
           (show_toast
              \<lparr>title = ''Boleta Emitida con '' @ [E_acute] @ ''xito'',
               description = ''Documento '' @ numero_completo (issue_data r) @
                             '' procesado y enviado a SUNAT.'',
               variant = Success\<rparr>
              (handleGeneratePdf api (boleta_id (issue_data r))
                 (st\<lparr>isSubmitting := True,
                     api_calls := api_calls st @ [POST_boletas (payload_of vals)],
                     lastIssuedBoleta := Some (issue_data r)\<rparr>)))
           \<lparr>isSubmitting := False\<rparr>"
  using assms by (cases "issue_data r") (simp add: onSubmit_def Let_def)

lemma handleGeneratePdf_frame:
  "lastIssuedBoleta (handleGeneratePdf api i st) = lastIssuedBoleta st \<and>
   api_calls (handleGeneratePdf api i st) = api_calls st @ [POST_generate_pdf i A4]"
  by (simp add: handleGeneratePdf_def Let_def show_toast_def split: option.splits)

lemma handleGeneratePdf_toasts:
  "toasts (handleGeneratePdf api i st) =
     toasts st @
       [case generateBoletaPdf api i A4 of
          None \<Rightarrow>
            \<lparr>title = ''Generaci'' @ [o_acute] @ ''n de PDF Solicitada'',
             description = ''El PDF se est'' @ [a_acute] @ '' generando. Podr'' @
                           [a_acute] @ '' descargarlo en breve.'',
             variant = Success\<rparr>
        | Some x \<Rightarrow>
            \<lparr>title = ''Error de PDF'',
             description =
               message_or (''Error al solicitar la generaci'' @ [o_acute] @ ''n del PDF.'') x,
             variant = Destructive\<rparr>]"
  by (simp add: handleGeneratePdf_def Let_def show_toast_def split: option.splits)

text \<open>What \<open>issueBoleta\<close> throws, for each way the request can fail.\<close>

lemma apiMessage_of_truthy:
  assumes "get_member ''message'' body = Some v" and "truthy v"
  shows "apiMessage_of api body = Inr (case v of JStr s \<Rightarrow> s | _ \<Rightarrow> ToString api v)"
  using assms by (cases body) (simp_all add: apiMessage_of_def get_member_def)






lemma issueBoleta_misshaped:
  assumes "post_boletas api p = AxiosResponse body" and "IssueResponseSchema_parse body = None"
  shows "issueBoleta api p =
           Inl (JsError (''Error al procesar la respuesta o de red: '' @ ZodError_message api body))"
  using assms by (simp add: issueBoleta_def)






lemma generateBoletaPdf_answered:
  assumes "post_generate_pdf api i fmt = AxiosResponse b"
  shows "generateBoletaPdf api i fmt = None"
  using assms by (simp add: generateBoletaPdf_def)

lemma generateBoletaPdf_message:
  assumes "post_generate_pdf api i fmt = AxiosErrorWithResponse b"
    and "get_member ''message'' b = Some (JStr m)" and "m \<noteq> []"
  shows "generateBoletaPdf api i fmt = Some (JsError (''Error de la API al generar PDF: '' @ m))"
  using assms(1) apiMessage_of_truthy [OF assms(2), of api] assms(3)
  by (simp add: generateBoletaPdf_def truthy_def)

lemma generateBoletaPdf_rejects:
  assumes "post_generate_pdf api i fmt = AxiosRejects x"
  shows "generateBoletaPdf api i fmt =
           Some (JsError (''Error desconocido al solicitar la generaci'' @ [o_acute] @ ''n del PDF.''))"
  using assms by (simp add: generateBoletaPdf_def)

lemma onSubmit_issued_pdf_requested:
  assumes "issueBoleta api (payload_of vals) = Inr r"
    and "generateBoletaPdf api (boleta_id (issue_data r)) A4 = None"
  shows "onSubmit api vals st =
           st\<lparr>isSubmitting := False, isGeneratingPdf := False,
              lastIssuedBoleta := Some (issue_data r),
              api_calls := api_calls st @ [POST_boletas (payload_of vals),
                                           POST_generate_pdf (boleta_id (issue_data r)) A4],
              toasts := toasts st @
                [\<lparr>title = ''Generaci'' @ [o_acute] @ ''n de PDF Solicitada'',
                  description = ''El PDF se est'' @ [a_acute] @ '' generando. Podr'' @
                                [a_acute] @ '' descargarlo en breve.'',
                  variant = Success\<rparr>,
                 \<lparr>title = ''Boleta Emitida con '' @ [E_acute] @ ''xito'',
                  description = ''Documento '' @ numero_completo (issue_data r) @
                                '' procesado y enviado a SUNAT.'',
                  variant = Success\<rparr>]\<rparr>"
  unfolding onSubmit_issued [OF assms(1)]
  by (cases st) (simp add: handleGeneratePdf_def assms(2) show_toast_def Let_def)

lemma onSubmit_issued_pdf_failed:
  assumes "issueBoleta api (payload_of vals) = Inr r"
    and "generateBoletaPdf api (boleta_id (issue_data r)) A4 = Some (JsError e)"
  shows "toasts (onSubmit api vals st) =
           toasts st @
             [\<lparr>title = ''Error de PDF'', description = e, variant = Destructive\<rparr>,
              \<lparr>title = ''Boleta Emitida con '' @ [E_acute] @ ''xito'',
               description = ''Documento '' @ numero_completo (issue_data r) @
                             '' procesado y enviado a SUNAT.'',
               variant = Success\<rparr>]"
  unfolding onSubmit_issued [OF assms(1)]
  by (simp add: handleGeneratePdf_toasts assms(2) show_toast_def message_or_def)

lemma IssueResponseSchema_parse_Some_iff:
  "IssueResponseSchema_parse body = Some r \<longleftrightarrow>
     get_member ''success'' body = Some (JBool (success r)) \<and>
     get_member ''message'' body = Some (JStr (message r)) \<and>
     (\<exists>kvs. get_member ''data'' body = Some (JObj kvs) \<and>
            get_member ''id'' (JObj kvs) = Some (JNum (boleta_id (issue_data r))) \<and>
            get_member ''numero_completo'' (JObj kvs) =
              Some (JStr (numero_completo (issue_data r))))"
  by (cases r) (auto simp: IssueResponseSchema_parse_def split: option.splits json.splits)

text \<open>
  C10. For a response of successful status, \<open>IssueResponseSchema.parse\<close> accepts the
  body exactly when it has a boolean \<open>success\<close>, a string \<open>message\<close> and an object
  \<open>data\<close> with a number \<open>id\<close> and a string \<open>numero_completo\<close>. An accepted body
  makes \<open>onSubmit\<close> store the issued document and request its PDF, and the value of
  \<open>success\<close> plays no part: a body that differs in that flag alone leads to the same
  state. What the PDF request answers decides the first of the two toasts: when it is
  answered, the toast that the PDF was requested; when it fails with a message in its
  body, or rejects, the PDF error toast with the message of \<open>generateBoletaPdf\<close>; the
  toast of the issued document follows in each case. A body that is not accepted leaves
  no issued document, sends no PDF request, and shows the error toast.
\<close>

theorem well_shaped_body_is_issued:
  assumes post: "post_boletas api (payload_of vals) = AxiosResponse body"
  shows "(IssueResponseSchema_parse body = Some r \<longleftrightarrow>
            get_member ''success'' body = Some (JBool (success r)) \<and>
            get_member ''message'' body = Some (JStr (message r)) \<and>
            (\<exists>kvs. get_member ''data'' body = Some (JObj kvs) \<and>
               get_member ''id'' (JObj kvs) = Some (JNum (boleta_id (issue_data r))) \<and>
               get_member ''numero_completo'' (JObj kvs) =
                 Some (JStr (numero_completo (issue_data r))))) \<and>
         (IssueResponseSchema_parse body = Some r \<longrightarrow>
            issueBoleta api (payload_of vals) = Inr r \<and>
            lastIssuedBoleta (onSubmit api vals st) = Some (issue_data r) \<and>
            api_calls (onSubmit api vals st) =
              api_calls st @ [POST_boletas (payload_of vals),
                              POST_generate_pdf (boleta_id (issue_data r)) A4]) \<and>
         (IssueResponseSchema_parse body = Some r \<and>
          IssueResponseSchema_parse body' = Some (r\<lparr>success := flag\<rparr>) \<longrightarrow>
            onSubmit (api\<lparr>post_boletas := (\<lambda>payload. AxiosResponse body')\<rparr>) vals st =
            onSubmit api vals st) \<and>
         (IssueResponseSchema_parse body = Some r \<and>
          post_generate_pdf api (boleta_id (issue_data r)) A4 = AxiosResponse b \<longrightarrow>
            onSubmit api vals st =
              st\<lparr>isSubmitting := False, isGeneratingPdf := False,
                 lastIssuedBoleta := Some (issue_data r),
                 api_calls := api_calls st @ [POST_boletas (payload_of vals),
                                              POST_generate_pdf (boleta_id (issue_data r)) A4],
                 toasts := toasts st @
                   [\<lparr>title = ''Generaci'' @ [o_acute] @ ''n de PDF Solicitada'',
                     description = ''El PDF se est'' @ [a_acute] @ '' generando. Podr'' @
                                   [a_acute] @ '' descargarlo en breve.'',
                     variant = Success\<rparr>,
                    \<lparr>title = ''Boleta Emitida con '' @ [E_acute] @ ''xito'',
                     description = ''Documento '' @ numero_completo (issue_data r) @
                                   '' procesado y enviado a SUNAT.'',
                     variant = Success\<rparr>]\<rparr>) \<and>
         (IssueResponseSchema_parse body = Some r \<and>
          post_generate_pdf api (boleta_id (issue_data r)) A4 = AxiosErrorWithResponse b \<and>
          get_member ''message'' b = Some (JStr m) \<and> m \<noteq> [] \<longrightarrow>
            toasts (onSubmit api vals st) =
              toasts st @
                [\<lparr>title = ''Error de PDF'',
                  description = ''Error de la API al generar PDF: '' @ m,
                  variant = Destructive\<rparr>,
                 \<lparr>title = ''Boleta Emitida con '' @ [E_acute] @ ''xito'',
                  description = ''Documento '' @ numero_completo (issue_data r) @
                                '' procesado y enviado a SUNAT.'',
                  variant = Success\<rparr>]) \<and>
         (IssueResponseSchema_parse body = Some r \<and>
          post_generate_pdf api (boleta_id (issue_data r)) A4 = AxiosRejects x \<longrightarrow>
            toasts (onSubmit api vals st) =
              toasts st @
                [\<lparr>title = ''Error de PDF'',
                  description = ''Error desconocido al solicitar la generaci'' @ [o_acute] @
                                ''n del PDF.'',
                  variant = Destructive\<rparr>,
                 \<lparr>title = ''Boleta Emitida con '' @ [E_acute] @ ''xito'',
                  description = ''Documento '' @ numero_completo (issue_data r) @
                                '' procesado y enviado a SUNAT.'',
                  variant = Success\<rparr>]) \<and>
         (IssueResponseSchema_parse body = None \<longrightarrow>
            issueBoleta api (payload_of vals) =
              Inl (JsError (''Error al procesar la respuesta o de red: '' @
                            ZodError_message api body)) \<and>
            onSubmit api vals st =
              st\<lparr>isSubmitting := False, lastIssuedBoleta := None,
                 api_calls := api_calls st @ [POST_boletas (payload_of vals)],
                 toasts := toasts st @
                   [\<lparr>title = ''Error de Emisi'' @ [o_acute] @ ''n'',
                     description = ''Error al procesar la respuesta o de red: '' @
                                   ZodError_message api body,
                     variant = Destructive\<rparr>]\<rparr>)"
proof -
  have accepted: "issueBoleta api (payload_of vals) = Inr r"
    if "IssueResponseSchema_parse body = Some r"
    using post that by (simp add: issueBoleta_def)
  have requested: "onSubmit api vals st =
              st\<lparr>isSubmitting := False, isGeneratingPdf := False,
                 lastIssuedBoleta := Some (issue_data r),
                 api_calls := api_calls st @ [POST_boletas (payload_of vals),
                                              POST_generate_pdf (boleta_id (issue_data r)) A4],
                 toasts := toasts st @
                   [\<lparr>title = ''Generaci'' @ [o_acute] @ ''n de PDF Solicitada'',
                     description = ''El PDF se est'' @ [a_acute] @ '' generando. Podr'' @
                                   [a_acute] @ '' descargarlo en breve.'',
                     variant = Success\<rparr>,
                    \<lparr>title = ''Boleta Emitida con '' @ [E_acute] @ ''xito'',
                     description = ''Documento '' @ numero_completo (issue_data r) @
                                   '' procesado y enviado a SUNAT.'',
                     variant = Success\<rparr>]\<rparr>"
    if "IssueResponseSchema_parse body = Some r"
      and "post_generate_pdf api (boleta_id (issue_data r)) A4 = AxiosResponse b"
    using onSubmit_issued_pdf_requested [OF accepted [OF that(1)]
        generateBoletaPdf_answered [OF that(2)]] .
  have pdf_message: "toasts (onSubmit api vals st) =
              toasts st @
                [\<lparr>title = ''Error de PDF'',
                  description = ''Error de la API al generar PDF: '' @ m,
                  variant = Destructive\<rparr>,
                 \<lparr>title = ''Boleta Emitida con '' @ [E_acute] @ ''xito'',
                  description = ''Documento '' @ numero_completo (issue_data r) @
                                '' procesado y enviado a SUNAT.'',
                  variant = Success\<rparr>]"
    if "IssueResponseSchema_parse body = Some r"
      and "post_generate_pdf api (boleta_id (issue_data r)) A4 = AxiosErrorWithResponse b"
      and "get_member ''message'' b = Some (JStr m)" and "m \<noteq> []"
    using onSubmit_issued_pdf_failed [OF accepted [OF that(1)]
        generateBoletaPdf_message [OF that(2,3,4)]] .
  have pdf_rejects: "toasts (onSubmit api vals st) =
              toasts st @
                [\<lparr>title = ''Error de PDF'',
                  description = ''Error desconocido al solicitar la generaci'' @ [o_acute] @
                                ''n del PDF.'',
                  variant = Destructive\<rparr>,
                 \<lparr>title = ''Boleta Emitida con '' @ [E_acute] @ ''xito'',
                  description = ''Documento '' @ numero_completo (issue_data r) @
                                '' procesado y enviado a SUNAT.'',
                  variant = Success\<rparr>]"
    if "IssueResponseSchema_parse body = Some r"
      and "post_generate_pdf api (boleta_id (issue_data r)) A4 = AxiosRejects x"
    using onSubmit_issued_pdf_failed [OF accepted [OF that(1)]
        generateBoletaPdf_rejects [OF that(2)]] .
  have issued: "lastIssuedBoleta (onSubmit api vals st) = Some (issue_data r) \<and>
            api_calls (onSubmit api vals st) =
              api_calls st @ [POST_boletas (payload_of vals),
                              POST_generate_pdf (boleta_id (issue_data r)) A4]"
    if "IssueResponseSchema_parse body = Some r"
  proof -
    have "issueBoleta api (payload_of vals) = Inr r"
      using post that by (simp add: issueBoleta_def)
    then show ?thesis
      by (simp add: onSubmit_issued handleGeneratePdf_frame show_toast_def)
  qed
  have flag: "onSubmit (api\<lparr>post_boletas := (\<lambda>payload. AxiosResponse body')\<rparr>) vals st =
            onSubmit api vals st"
    if "IssueResponseSchema_parse body = Some r"
      and "IssueResponseSchema_parse body' = Some (r\<lparr>success := flag\<rparr>)"
  proof -
    have a: "issueBoleta api (payload_of vals) = Inr r"
      using post that(1) by (simp add: issueBoleta_def)
    have b: "issueBoleta (api\<lparr>post_boletas := (\<lambda>payload. AxiosResponse body')\<rparr>) (payload_of vals)
               = Inr (r\<lparr>success := flag\<rparr>)"
      using that(2) by (simp add: issueBoleta_def)
    have m: "apiMessage_of (api\<lparr>post_boletas := f\<rparr>) b = apiMessage_of api b" for f b
      by (simp add: apiMessage_of_def split: json.splits option.splits)
    have gp: "generateBoletaPdf (api\<lparr>post_boletas := f\<rparr>) i fmt = generateBoletaPdf api i fmt"
      for f i fmt
      by (simp add: generateBoletaPdf_def m split: axios_result.splits)
    have g: "handleGeneratePdf (api\<lparr>post_boletas := f\<rparr>) i s = handleGeneratePdf api i s" for f i s
      by (simp add: handleGeneratePdf_def gp)
    show ?thesis
      unfolding onSubmit_issued [OF a] onSubmit_issued [OF b] g by simp
  qed
  have rejected: "onSubmit api vals st =
              st\<lparr>isSubmitting := False, lastIssuedBoleta := None,
                 api_calls := api_calls st @ [POST_boletas (payload_of vals)],
                 toasts := toasts st @
                   [\<lparr>title = ''Error de Emisi'' @ [o_acute] @ ''n'',
                     description = ''Error al procesar la respuesta o de red: '' @
                                   ZodError_message api body,
                     variant = Destructive\<rparr>]\<rparr>"
    if "IssueResponseSchema_parse body = None"
  proof -
    have "issueBoleta api (payload_of vals) =
            Inl (JsError (''Error al procesar la respuesta o de red: '' @ ZodError_message api body))"
      using post that by (simp add: issueBoleta_def)
    from onSubmit_failure [OF this] show ?thesis
      by (simp add: message_or_def)
  qed
  show ?thesis
    apply (intro conjI)
    subgoal by (rule IssueResponseSchema_parse_Some_iff)
    subgoal using issued accepted by blast
    subgoal using flag by blast
    subgoal using requested by blast
    subgoal using pdf_message by blast
    subgoal using pdf_rejects by blast
    subgoal using rejected issueBoleta_misshaped [OF post] by blast
    done
qed

text \<open>
  The theorem at a body of the right shape whose \<open>success\<close> is false, with a PDF
  request that is answered: document 42 is stored, its PDF is requested, and the two
  toasts report success.
\<close>

theorem well_shaped_body_is_issued_witness:
  "IssueResponseSchema_parse (issue_body False) =
     Some \<lparr>success = False, message = ''ok'',
           issue_data = \<lparr>boleta_id = 42, numero_completo = ''B001-00042''\<rparr>\<rparr> \<and>
   onSubmit (example_api (AxiosResponse (issue_body False))) (example_values [example_detalle])
     form_at_rest =
     form_at_rest
       \<lparr>lastIssuedBoleta := Some \<lparr>boleta_id = 42, numero_completo = ''B001-00042''\<rparr>,
        api_calls := [POST_boletas (payload_of (example_values [example_detalle])),
                      POST_generate_pdf 42 A4],
        toasts :=
          [\<lparr>title = ''Generaci'' @ [o_acute] @ ''n de PDF Solicitada'',
            description = ''El PDF se est'' @ [a_acute] @ '' generando. Podr'' @
                          [a_acute] @ '' descargarlo en breve.'',
            variant = Success\<rparr>,
           \<lparr>title = ''Boleta Emitida con '' @ [E_acute] @ ''xito'',
            description = ''Documento B001-00042 procesado y enviado a SUNAT.'',
            variant = Success\<rparr>]\<rparr> \<and>
   onSubmit (example_api (AxiosResponse (issue_body True))) (example_values [example_detalle])
     form_at_rest =
   onSubmit (example_api (AxiosResponse (issue_body False))) (example_values [example_detalle])
     form_at_rest"
proof -
  let ?r = "\<lparr>success = False, message = ''ok'',
            issue_data = \<lparr>boleta_id = 42, numero_completo = ''B001-00042''\<rparr>\<rparr>"
  let ?api = "example_api (AxiosResponse (issue_body False))"
  let ?vals = "example_values [example_detalle]"
  have p: "post_boletas ?api (payload_of ?vals) = AxiosResponse (issue_body False)"
    by simp
  have f: "IssueResponseSchema_parse (issue_body False) = Some ?r"
    by (simp add: IssueResponseSchema_parse_def get_member_def)
  have t: "IssueResponseSchema_parse (issue_body True) = Some (?r\<lparr>success := True\<rparr>)"
    by (simp add: IssueResponseSchema_parse_def get_member_def)
  have g: "post_generate_pdf ?api (boleta_id (issue_data ?r)) A4 = AxiosResponse JNull"
    by simp
  have u: "?api\<lparr>post_boletas := (\<lambda>payload. AxiosResponse (issue_body True))\<rparr> =
           example_api (AxiosResponse (issue_body True))"
    by simp
  note th = well_shaped_body_is_issued
              [OF p, where r = ?r and body' = "issue_body True" and flag = True
                 and st = form_at_rest and b = JNull]
  from th f g have s: "onSubmit ?api ?vals form_at_rest =
      form_at_rest
        \<lparr>isSubmitting := False, isGeneratingPdf := False,
           lastIssuedBoleta := Some (issue_data ?r),
           api_calls := api_calls form_at_rest @
             [POST_boletas (payload_of ?vals), POST_generate_pdf (boleta_id (issue_data ?r)) A4],
           toasts := toasts form_at_rest @
             [\<lparr>title = ''Generaci'' @ [o_acute] @ ''n de PDF Solicitada'',
               description = ''El PDF se est'' @ [a_acute] @ '' generando. Podr'' @
                             [a_acute] @ '' descargarlo en breve.'',
               variant = Success\<rparr>,
              \<lparr>title = ''Boleta Emitida con '' @ [E_acute] @ ''xito'',
               description = ''Documento '' @ numero_completo (issue_data ?r) @
                             '' procesado y enviado a SUNAT.'',
               variant = Success\<rparr>]\<rparr>"
    by blast
  from th f t have e:
    "onSubmit (?api\<lparr>post_boletas := (\<lambda>payload. AxiosResponse (issue_body True))\<rparr>) ?vals
       form_at_rest = onSubmit ?api ?vals form_at_rest"
    by blast
  have s': "onSubmit ?api ?vals form_at_rest =
     form_at_rest
       \<lparr>lastIssuedBoleta := Some \<lparr>boleta_id = 42, numero_completo = ''B001-00042''\<rparr>,
        api_calls := [POST_boletas (payload_of ?vals), POST_generate_pdf 42 A4],
        toasts :=
          [\<lparr>title = ''Generaci'' @ [o_acute] @ ''n de PDF Solicitada'',
            description = ''El PDF se est'' @ [a_acute] @ '' generando. Podr'' @
                          [a_acute] @ '' descargarlo en breve.'',
            variant = Success\<rparr>,
           \<lparr>title = ''Boleta Emitida con '' @ [E_acute] @ ''xito'',
            description = ''Documento B001-00042 procesado y enviado a SUNAT.'',
            variant = Success\<rparr>]\<rparr>"
    unfolding s by simp
  from e have e': "onSubmit (example_api (AxiosResponse (issue_body True))) ?vals form_at_rest =
                   onSubmit ?api ?vals form_at_rest"
    unfolding u .
  from f s' e' show ?thesis by blast
qed


end
